(* ===== verification/Prelude.thy ===== *)
theory Prelude
  imports Complex_Main "HOL-Library.Multiset" "HOL-Library.Sublist"
begin

text \<open>
  Shared vocabulary of the dashboard development (\<open>src/spacex_dash_app.py\<close>):
  the Python values the program handles (exceptions, pandas floats with NaN, the value
  of a Dash dropdown), the proof collections the component theories fill, and the
  generic facts on lists, counts and sublists that the component proofs share.
\<close>

section \<open>Python values\<close>

text \<open>
  The exceptions the program can raise: unpacking the slider value
  (\<open>low, high = payload_range\<close>) and \<open>int(max_payload)\<close> raise
  \<open>ValueError\<close>, with the message CPython prints. \<open>TypeError\<close> is a callback called
  with arguments that do not fit its signature, which Dash's wiring never does.
  \<open>KeyError\<close> is pandas' error for a column the table lacks, carrying the column name.
\<close>

datatype py_error = ValueError string | TypeError string | KeyError string

text \<open>
  Python statements run in order and the first exception ends the function:
  \<open>py_bind\<close> runs the continuation on a result and passes an exception on.
\<close>

fun py_bind :: "py_error + 'a \<Rightarrow> ('a \<Rightarrow> py_error + 'b) \<Rightarrow> py_error + 'b" where
  "py_bind (Inl e) f = Inl e"
| "py_bind (Inr x) f = f x"

text \<open>
  A pandas \<open>float64\<close> cell: a finite value or NaN (an empty CSV cell, or the maximum
  of an empty column). Every comparison with NaN is false, as in IEEE arithmetic.
\<close>

datatype py_float = Fin real | NaN

fun float_le :: "py_float \<Rightarrow> py_float \<Rightarrow> bool" where
  "float_le (Fin x) (Fin y) = (x \<le> y)"
| "float_le _ _ = False"

text \<open>
  The value of a Dash \<open>Dropdown\<close>: a string, or \<open>None\<close> once the user clears it
  (Dash dropdowns are clearable unless \<open>clearable=False\<close>).
\<close>

type_synonym dropdown_value = "string option"

text \<open>Formatting a dropdown value in an f-string: \<open>f'{x}'\<close> is \<open>str(x)\<close>.\<close>

fun py_fstr :: "dropdown_value \<Rightarrow> string" where
  "py_fstr None = ''None''"
| "py_fstr (Some s) = s"

section \<open>Proof collections\<close>

named_theorems row_filter_simps
  "equations that turn a chain of dataframe selections into one filter over the rows"

named_theorems callback_defs
  "definitions of the Dash callbacks and the figures they build"

section \<open>Generic facts on lists and counts\<close>

declare zip_map_fst_snd [simp]

lemma float_le_Fin_iff [simp]:
  "float_le a (Fin y) \<longleftrightarrow> (\<exists>x. a = Fin x \<and> x \<le> y)"
  "float_le (Fin x) b \<longleftrightarrow> (\<exists>y. b = Fin y \<and> x \<le> y)"
  by (cases a; simp) (cases b; simp)

lemma float_le_NaN [simp]: "\<not> float_le NaN b" "\<not> float_le a NaN"
  by (cases b; simp) (cases a; simp)

lemma all_not_Fin_iff: "(\<forall>x. v \<noteq> Fin x) \<longleftrightarrow> v = NaN"
  by (cases v) auto

lemma float_le_trans [trans]: "float_le a b \<Longrightarrow> float_le b c \<Longrightarrow> float_le a c"
  by (cases a; cases b; cases c) auto

lemma sum_count_list_sorted_keys:
  "sum_list (map (count_list xs) (sort (remdups xs))) = length xs"
proof -
  have "sum_list (map (count_list xs) (sort (remdups xs))) = sum (count_list xs) (set xs)"
    by (simp add: sum_list_distinct_conv_sum_set)
  also have "\<dots> = sum (count (mset xs)) (set_mset (mset xs))"
    by (simp add: count_mset)
  also have "\<dots> = length xs"
    by (metis size_mset size_multiset_overloaded_eq)
  finally show ?thesis .
qed

lemma count_list_pos_iff [simp]: "0 < count_list xs x \<longleftrightarrow> x \<in> set xs"
  by (induction xs) auto

lemma count_list_map: "count_list (map f xs) k = length (filter (\<lambda>x. f x = k) xs)"
  by (induction xs) auto

lemma count_list_map_filter:
  "count_list (map f (filter P xs)) k = length (filter (\<lambda>x. P x \<and> f x = k) xs)"
  by (induction xs) auto

lemma count_sum_list: "count (sum_list Ms) x = sum_list (map (\<lambda>M. count M x) Ms)"
  by (induction Ms) auto

lemma subseq_filter_mono:
  assumes "\<And>x. x \<in> set xs \<Longrightarrow> P x \<Longrightarrow> Q x"
  shows "subseq (filter P xs) (filter Q xs)"
proof -
  from assms have "filter P xs = filter P (filter Q xs)"
    by (auto simp: filter_filter intro: filter_cong)
  then show ?thesis
    by (metis subseq_filter_left)
qed

text \<open>
  Splitting a count by a key: over any duplicate-free list of keys that holds the key of
  every row, the per-key counts add up to the whole count.
\<close>

lemma sum_list_partition_length:
  assumes "distinct ks" and "set (map f xs) \<subseteq> set ks"
  shows "sum_list (map (\<lambda>k. length (filter (\<lambda>x. f x = k \<and> P x) xs)) ks)
         = length (filter P xs)"
  using assms(2)
proof (induction xs)
  case Nil
  then show ?case by (simp add: sum_list_const_mult)
next
  case (Cons x xs)
  have one: "sum_list (map (\<lambda>k. if f x = k \<and> P x then 1 else 0) ks) = (if P x then 1 else (0::nat))"
    using Cons.prems assms(1) by (simp add: sum_list_distinct_conv_sum_set)
  have "sum_list (map (\<lambda>k. length (filter (\<lambda>y. f y = k \<and> P y) (x # xs))) ks)
        = sum_list (map (\<lambda>k. (if f x = k \<and> P x then 1 else 0)
             + length (filter (\<lambda>y. f y = k \<and> P y) xs)) ks)"
    by (intro arg_cong [where f = sum_list] map_cong) auto
  also have "\<dots> = (if P x then 1 else 0) + length (filter P xs)"
    using Cons by (simp add: sum_list_addf one)
  finally show ?case by simp
qed

end
