(* ===== verification/Dataset.thy ===== *)
theory Dataset
  imports Prelude
begin

text \<open>
  The dataset loaded at startup (\<open>src/spacex_dash_app.py\<close>, lines 10--12):
  \<open>spacex_df\<close> is the table read from \<open>spacex_launch_dash.csv\<close>, and
  \<open>max_payload\<close>/\<open>min_payload\<close> are the pandas maximum and minimum of its
  \<open>Payload Mass (kg)\<close> column. Reading the CSV file is I/O and is not modelled: the
  table is a parameter of every definition, a list of rows in file order. Only the three
  columns the program reads are kept. pandas' \<open>max\<close> and \<open>min\<close> skip NaN cells and
  return NaN for a column with no number in it.
\<close>

section \<open>Rows and the table\<close>

record launch_record =
  launch_site :: string     \<comment> \<open>column \<open>Launch Site\<close>\<close>
  payload_mass :: py_float  \<comment> \<open>column \<open>Payload Mass (kg)\<close>\<close>
  outcome_class :: int      \<comment> \<open>column \<open>class\<close>\<close>

type_synonym dataframe = "launch_record list"

section \<open>Column maximum and minimum\<close>

fun finite_values :: "py_float list \<Rightarrow> real list" where
  "finite_values [] = []"
| "finite_values (Fin x # xs) = x # finite_values xs"
| "finite_values (NaN # xs) = finite_values xs"

definition column_max :: "py_float list \<Rightarrow> py_float" where
  "column_max xs = (case finite_values xs of [] \<Rightarrow> NaN | y # ys \<Rightarrow> Fin (fold max ys y))"

definition column_min :: "py_float list \<Rightarrow> py_float" where
  "column_min xs = (case finite_values xs of [] \<Rightarrow> NaN | y # ys \<Rightarrow> Fin (fold min ys y))"

definition max_payload :: "dataframe \<Rightarrow> py_float" where
  "max_payload df = column_max (map payload_mass df)"

definition min_payload :: "dataframe \<Rightarrow> py_float" where
  "min_payload df = column_min (map payload_mass df)"

section \<open>Selecting a site\<close>

text \<open>
  \<open>df[df['Launch Site'] == selected_site]\<close> (lines 68 and 86): the rows whose site
  equals the dropdown value, in table order; a \<open>None\<close> value equals no site.
\<close>

definition site_rows :: "dataframe \<Rightarrow> dropdown_value \<Rightarrow> dataframe" where
  "site_rows df selected_site = filter (\<lambda>r. Some (launch_site r) = selected_site) df"

section \<open>Well-formed tables\<close>

text \<open>
  What the specification assumes of the file: every payload is a non-negative number and
  every outcome is 0 or 1. pandas does not check it; the lemmas below state where the
  program needs it.
\<close>

definition wf_record :: "launch_record \<Rightarrow> bool" where
  "wf_record r \<longleftrightarrow> (\<exists>m. payload_mass r = Fin m \<and> 0 \<le> m) \<and> outcome_class r \<in> {0, 1}"

definition wf_dataframe :: "dataframe \<Rightarrow> bool" where
  "wf_dataframe df \<longleftrightarrow> list_all wf_record df"

section \<open>Lemmas\<close>

lemma set_finite_values [simp]: "set (finite_values xs) = {x. Fin x \<in> set xs}"
proof (induction xs rule: finite_values.induct)
qed auto

lemma finite_values_Nil_iff: "finite_values xs = [] \<longleftrightarrow> (\<forall>x. Fin x \<notin> set xs)"
  by (induction xs rule: finite_values.induct) auto

lemma fold_max_ge: "x \<in> set (y # ys) \<Longrightarrow> x \<le> fold max ys (y::real)"
  by (simp flip: Max.set_eq_fold)

lemma fold_max_in: "fold max ys (y::real) \<in> set (y # ys)"
  by (metis Max.set_eq_fold Max_in finite_set list.discI set_empty)

lemma fold_min_le: "x \<in> set (y # ys) \<Longrightarrow> fold min ys (y::real) \<le> x"
  by (simp flip: Min.set_eq_fold)

lemma fold_min_in: "fold min ys (y::real) \<in> set (y # ys)"
  by (metis Min.set_eq_fold Min_in finite_set list.discI set_empty)

lemma column_max_Fin:
  "column_max xs = Fin m \<longleftrightarrow> Fin m \<in> set xs \<and> (\<forall>x. Fin x \<in> set xs \<longrightarrow> x \<le> m)"
proof (cases "finite_values xs")
  case Nil
  then show ?thesis
    by (auto simp: column_max_def dest: arg_cong [where f = set])
next
  case (Cons y ys)
  then have s: "set (y # ys) = {x. Fin x \<in> set xs}"
    by (metis set_finite_values)
  show ?thesis
    using Cons s fold_max_ge [of _ y ys] fold_max_in [of ys y]
    by (auto simp: column_max_def intro: order.antisym)
qed

lemma column_min_Fin:
  "column_min xs = Fin m \<longleftrightarrow> Fin m \<in> set xs \<and> (\<forall>x. Fin x \<in> set xs \<longrightarrow> m \<le> x)"
proof (cases "finite_values xs")
  case Nil
  then show ?thesis
    by (auto simp: column_min_def dest: arg_cong [where f = set])
next
  case (Cons y ys)
  then have s: "set (y # ys) = {x. Fin x \<in> set xs}"
    by (metis set_finite_values)
  show ?thesis
    using Cons s fold_min_le [of _ y ys] fold_min_in [of ys y]
    by (auto simp: column_min_def intro: order.antisym)
qed

lemma column_max_NaN_iff: "column_max xs = NaN \<longleftrightarrow> (\<forall>x. Fin x \<notin> set xs)"
  by (simp add: column_max_def flip: finite_values_Nil_iff split: list.split)

lemma column_min_NaN_iff: "column_min xs = NaN \<longleftrightarrow> (\<forall>x. Fin x \<notin> set xs)"
  by (simp add: column_min_def flip: finite_values_Nil_iff split: list.split)

lemma all_Fin_payload_iff:
  "(\<forall>x. Fin x \<in> set (map payload_mass df) \<longrightarrow> P x) \<longleftrightarrow> (\<forall>r \<in> set df. \<forall>x. payload_mass r = Fin x \<longrightarrow> P x)"
  by (simp add: image_iff) metis

section \<open>Properties of the payload bounds\<close>

text \<open>
  C20. \<open>max_payload\<close> and \<open>min_payload\<close> (lines 11--12) are the largest and the
  smallest numeric payload of the table: each is a payload of some row and bounds the
  payload of every row that has a number.
\<close>

theorem payload_max_min_spec:
  "(max_payload df = Fin m \<longleftrightarrow>
      Fin m \<in> payload_mass ` set df \<and> (\<forall>r \<in> set df. \<forall>x. payload_mass r = Fin x \<longrightarrow> x \<le> m))
   \<and> (min_payload df = Fin m \<longleftrightarrow>
      Fin m \<in> payload_mass ` set df \<and> (\<forall>r \<in> set df. \<forall>x. payload_mass r = Fin x \<longrightarrow> m \<le> x))"
  unfolding max_payload_def min_payload_def column_max_Fin column_min_Fin all_Fin_payload_iff
  by simp

theorem payload_max_min_spec_witness:
  "max_payload [\<lparr>launch_site = ''A'', payload_mass = Fin 500, outcome_class = 1\<rparr>,
                \<lparr>launch_site = ''B'', payload_mass = NaN, outcome_class = 0\<rparr>] = Fin 500
   \<and> Fin 500 \<in> payload_mass ` set [\<lparr>launch_site = ''A'', payload_mass = Fin 500, outcome_class = 1\<rparr>,
                \<lparr>launch_site = ''B'', payload_mass = NaN, outcome_class = (0::int)\<rparr>]"
  using payload_max_min_spec [of "[\<lparr>launch_site = ''A'', payload_mass = Fin 500, outcome_class = 1\<rparr>,
                \<lparr>launch_site = ''B'', payload_mass = NaN, outcome_class = 0\<rparr>]" 500]
  by (simp add: max_payload_def column_max_def)

end
