(* ===== verification/Layout.thy ===== *)
theory Layout
  imports Dataset
begin

text \<open>
  The app layout (\<open>src/spacex_dash_app.py\<close>, lines 18--53): a heading, the site
  dropdown with its five options and default \<open>'ALL'\<close>, the pie graph, the payload
  range slider and the scatter graph. Building it evaluates
  \<open>range(0, int(max_payload), 5000)\<close> for the slider marks (line 47), the only part of
  the layout that computes and the only one that can fail. Styles and the HTML wrappers
  (\<open>html.Div\<close>, \<open>html.Br\<close>, \<open>html.P\<close>) carry no behaviour and are left out.
\<close>

section \<open>Python builtins used on line 47\<close>

text \<open>\<open>int(x)\<close> of a float truncates toward zero and raises on NaN.\<close>

fun py_int :: "py_float \<Rightarrow> py_error + int" where
  "py_int (Fin x) = Inr (if 0 \<le> x then \<lfloor>x\<rfloor> else \<lceil>x\<rceil>)"
| "py_int NaN = Inl (ValueError ''cannot convert float NaN to integer'')"

text \<open>
  \<open>range(start, stop, step)\<close>: counts up while below \<open>stop\<close> for a positive step,
  down while above it for a negative one, and raises for step 0.
\<close>

function range_from :: "int \<Rightarrow> int \<Rightarrow> int \<Rightarrow> int list" where
  "range_from start stop step =
     (if (0 < step \<and> start < stop) \<or> (step < 0 \<and> stop < start)
      then start # range_from (start + step) stop step else [])"
  by pat_completeness auto
termination
  by (relation "measure (\<lambda>(a, b, s). if 0 < s then nat (b - a) else nat (a - b))") auto

declare range_from.simps [simp del]

definition py_range :: "int \<Rightarrow> int \<Rightarrow> int \<Rightarrow> py_error + int list" where
  "py_range start stop step =
     (if step = 0 then Inl (ValueError ''range() arg 3 must not be zero'')
      else Inr (range_from start stop step))"

text \<open>\<open>str(i)\<close> of an int: its decimal digits, with a leading minus sign when negative.\<close>

fun nat_digits :: "nat \<Rightarrow> string" where
  "nat_digits n =
     (if n < 10 then [char_of (48 + n)] else nat_digits (n div 10) @ [char_of (48 + n mod 10)])"

declare nat_digits.simps [simp del]

definition py_str_int :: "int \<Rightarrow> string" where
  "py_str_int i = (if i < 0 then CHR ''-'' # nat_digits (nat (- i)) else nat_digits (nat i))"

section \<open>Layout components\<close>

record dropdown_option =
  opt_label :: string
  opt_value :: string

definition site_options :: "dropdown_option list" where
  "site_options =
     [\<lparr>opt_label = ''All Sites'', opt_value = ''ALL''\<rparr>,
      \<lparr>opt_label = ''CCAFS LC-40'', opt_value = ''CCAFS LC-40''\<rparr>,
      \<lparr>opt_label = ''VAFB SLC-4E'', opt_value = ''VAFB SLC-4E''\<rparr>,
      \<lparr>opt_label = ''KSC LC-39A'', opt_value = ''KSC LC-39A''\<rparr>,
      \<lparr>opt_label = ''CCAFS SLC-40'', opt_value = ''CCAFS SLC-40''\<rparr>]"

text \<open>The launch sites the dropdown offers besides \<open>'ALL'\<close>.\<close>

definition known_sites :: "string list" where
  "known_sites = filter (\<lambda>v. v \<noteq> ''ALL'') (map opt_value site_options)"

record dropdown =
  dd_id :: string
  dd_options :: "dropdown_option list"
  dd_value :: dropdown_value

record range_slider =
  rs_id :: string
  rs_min :: py_float
  rs_max :: py_float
  rs_step :: int
  rs_marks :: "(int \<times> string) list"
  rs_value :: "py_float list"

record app_layout =
  heading :: string
  site_dropdown :: dropdown
  pie_graph_id :: string
  payload_slider :: range_slider
  scatter_graph_id :: string

text \<open>\<open>marks={i: str(i) for i in range(0, int(max_payload), 5000)}\<close>: a dict in
  insertion order, kept as an association list.\<close>

definition slider_marks :: "py_float \<Rightarrow> py_error + (int \<times> string) list" where
  "slider_marks mx =
     (case py_int mx of
        Inl e \<Rightarrow> Inl e
      | Inr m \<Rightarrow>
          (case py_range 0 m 5000 of
             Inl e \<Rightarrow> Inl e
           | Inr ticks \<Rightarrow> Inr (map (\<lambda>i. (i, py_str_int i)) ticks)))"

definition make_layout :: "dataframe \<Rightarrow> py_error + app_layout" where
  "make_layout df =
     (case slider_marks (max_payload df) of
        Inl e \<Rightarrow> Inl e
      | Inr marks \<Rightarrow> Inr
          \<lparr>heading = ''SpaceX Launch Records Dashboard'',
           site_dropdown = \<lparr>dd_id = ''site-dropdown'', dd_options = site_options,
                            dd_value = Some ''ALL''\<rparr>,
           pie_graph_id = ''success-pie-chart'',
           payload_slider = \<lparr>rs_id = ''payload-slider'', rs_min = min_payload df,
                             rs_max = max_payload df, rs_step = 1000, rs_marks = marks,
                             rs_value = [min_payload df, max_payload df]\<rparr>,
           scatter_graph_id = ''success-payload-scatter-chart''\<rparr>)"

section \<open>Lemmas\<close>

lemma range_from_unfold:
  "range_from a b s = (if (0 < s \<and> a < b) \<or> (s < 0 \<and> b < a) then a # range_from (a + s) b s else [])"
  by (rule range_from.simps)

lemma range_from_bounds:
  assumes "0 < s" and "x \<in> set (range_from a b s)"
  shows "a \<le> x \<and> x < b \<and> s dvd (x - a)"
  using assms
proof (induction a b s rule: range_from.induct)
  case (1 a b s)
  show ?case
  proof (cases "a < b")
    case True
    with "1.prems" have "x = a \<or> x \<in> set (range_from (a + s) b s)"
      by (simp add: range_from_unfold [of a b s])
    then show ?thesis
    proof
      assume "x = a"
      with True show ?thesis by simp
    next
      assume "x \<in> set (range_from (a + s) b s)"
      with "1.IH" "1.prems" True have "a + s \<le> x \<and> x < b \<and> s dvd (x - (a + s))"
        by simp
      then show ?thesis
        using "1.prems"(1) by (auto simp: dvd_diff_commute algebra_simps)
    qed
  next
    case False
    with "1.prems" show ?thesis by (simp add: range_from_unfold [of a b s])
  qed
qed

lemma sorted_range_from: "0 < s \<Longrightarrow> sorted_wrt (<) (range_from a b s)"
proof (induction a b s rule: range_from.induct)
  case (1 a b s)
  have "\<forall>x \<in> set (range_from (a + s) b s). a < x"
    using range_from_bounds [of s _ "a + s" b] "1.prems" by fastforce
  with 1 show ?case by (simp add: range_from_unfold [of a b s])
qed

lemma py_range_pos [simp]: "0 < s \<Longrightarrow> py_range a b s = Inr (range_from a b s)"
  by (simp add: py_range_def)

lemma py_int_Fin_le:
  assumes "py_int (Fin m) = Inr k" and "0 < k"
  shows "real_of_int k \<le> m"
proof (cases "0 \<le> m")
  case True
  with assms show ?thesis by auto
next
  case False
  then have "\<lceil>m\<rceil> \<le> 0" by linarith
  with assms False show ?thesis by auto
qed

lemma slider_marks_NaN: "slider_marks NaN = Inl (ValueError ''cannot convert float NaN to integer'')"
  by (simp add: slider_marks_def)

lemma slider_marks_Fin:
  "slider_marks (Fin m) = Inr (map (\<lambda>i. (i, py_str_int i)) (range_from 0 (if 0 \<le> m then \<lfloor>m\<rfloor> else \<lceil>m\<rceil>) 5000))"
  by (simp add: slider_marks_def)

lemma make_layout_Inr_iff:
  "(\<exists>L. make_layout df = Inr L) \<longleftrightarrow> (\<exists>m. max_payload df = Fin m)"
  by (cases "max_payload df") (auto simp: make_layout_def slider_marks_Fin slider_marks_NaN)

lemmas layout_eval_simps = range_from_unfold py_str_int_def nat_digits.simps char_of_def bit_0

lemma make_layout_marks:
  assumes "make_layout df = Inr L"
  shows "\<exists>m t. max_payload df = Fin m \<and> py_int (Fin m) = Inr t
           \<and> rs_marks (payload_slider L) = map (\<lambda>i. (i, py_str_int i)) (range_from 0 t 5000)"
proof -
  from assms obtain m where m: "max_payload df = Fin m"
    using make_layout_Inr_iff by blast
  with assms show ?thesis
    by (auto simp: make_layout_def slider_marks_Fin)
qed

section \<open>Properties of the slider marks\<close>

text \<open>
  C13. Every mark of the slider built at startup is a non-negative multiple of 5000 below
  the largest payload, labelled with its decimal string (line 47).
\<close>

theorem slider_marks_bounds:
  assumes "make_layout df = Inr L" and "(k, lbl) \<in> set (rs_marks (payload_slider L))"
  shows "0 \<le> k \<and> 5000 dvd k \<and> lbl = py_str_int k \<and> (\<exists>m. max_payload df = Fin m \<and> real_of_int k < m)"
proof -
  from make_layout_marks [OF assms(1)] obtain m t where m: "max_payload df = Fin m"
    and t: "py_int (Fin m) = Inr t"
    and marks: "rs_marks (payload_slider L) = map (\<lambda>i. (i, py_str_int i)) (range_from 0 t 5000)"
    by blast
  with assms(2) have k: "k \<in> set (range_from 0 t 5000)" and lbl: "lbl = py_str_int k"
    by auto
  from range_from_bounds [OF _ k] have b: "0 \<le> k" "k < t" "5000 dvd k"
    by simp_all
  from py_int_Fin_le [OF t] b have "real_of_int t \<le> m" by linarith
  with b have "real_of_int k < m" by linarith
  with b lbl m show ?thesis by simp
qed

theorem slider_marks_bounds_witness:
  "\<exists>L. make_layout [\<lparr>launch_site = ''A'', payload_mass = Fin 12000, outcome_class = 1\<rparr>] = Inr L
       \<and> (5000, ''5000'') \<in> set (rs_marks (payload_slider L))
       \<and> (\<exists>m. max_payload [\<lparr>launch_site = ''A'', payload_mass = Fin 12000, outcome_class = (1::int)\<rparr>]
                = Fin m \<and> real_of_int 5000 < m)"
proof -
  let ?df = "[\<lparr>launch_site = ''A'', payload_mass = Fin 12000, outcome_class = (1::int)\<rparr>]"
  have mx: "max_payload ?df = Fin 12000"
    by (simp add: max_payload_def column_max_def)
  then obtain L where L: "make_layout ?df = Inr L"
    using make_layout_Inr_iff by blast
  have "rs_marks (payload_slider L) = [(0, ''0''), (5000, ''5000''), (10000, ''10000'')]"
    using L mx by (auto simp: make_layout_def slider_marks_def layout_eval_simps)
  then have mem: "(5000, ''5000'') \<in> set (rs_marks (payload_slider L))" by simp
  from slider_marks_bounds [OF L mem] L mem show ?thesis by blast
qed

end
