(* ===== verification/GroupBy.thy ===== *)
theory GroupBy
  imports Prelude
begin

text \<open>
  The pandas aggregation both pie branches use (\<open>src/spacex_dash_app.py\<close>, lines 63
  and 69): \<open>df.groupby('class').size().reset_index(name='counts')\<close>. Its result is a
  table with one row per distinct key, keys in ascending order (\<open>groupby\<close> sorts by
  default), holding the number of rows with that key; keys with no row do not appear.
  The abstract contract is a multiset of keys: \<open>group_mset\<close> reads a grouped table
  back as the multiset it counts, and \<open>groupby_size_mset\<close> is the refinement lemma.
\<close>

definition groupby_size :: "'k::linorder list \<Rightarrow> ('k \<times> nat) list" where
  "groupby_size ks = map (\<lambda>k. (k, count_list ks k)) (sort (remdups ks))"

text \<open>Abstraction: the multiset of keys a grouped table stands for, and one key's count.\<close>

definition group_mset :: "('k \<times> nat) list \<Rightarrow> 'k multiset" where
  "group_mset ps = sum_list (map (\<lambda>(k, n). replicate_mset n k) ps)"

definition group_count :: "('k \<times> nat) list \<Rightarrow> 'k \<Rightarrow> nat" where
  "group_count ps k = (case map_of ps k of None \<Rightarrow> 0 | Some n \<Rightarrow> n)"

section \<open>Lemmas\<close>

lemma map_fst_groupby_size: "map fst (groupby_size ks) = sort (remdups ks)"
  by (simp add: groupby_size_def comp_def)

lemma map_snd_groupby_size: "map snd (groupby_size ks) = map (count_list ks) (sort (remdups ks))"
  by (simp add: groupby_size_def comp_def)

lemma groupby_size_keys_sorted: "sorted_wrt (<) (map fst (groupby_size ks))"
  by (simp add: strict_sorted_iff map_fst_groupby_size del: sorted_wrt_map)

lemma groupby_size_counts_pos: "(k, n) \<in> set (groupby_size ks) \<Longrightarrow> 0 < n"
  by (auto simp: groupby_size_def)

lemma sum_counts_groupby_size: "sum_list (map snd (groupby_size ks)) = length ks"
  by (simp add: map_snd_groupby_size sum_count_list_sorted_keys)

lemma groupby_size_Nil_iff [simp]: "groupby_size ks = [] \<longleftrightarrow> ks = []"
proof -
  have "sort (remdups ks) = [] \<longleftrightarrow> set (sort (remdups ks)) = {}" by blast
  then show ?thesis by (simp add: groupby_size_def)
qed

lemma fst_set_groupby_size [simp]: "fst ` set (groupby_size ks) = set ks"
  by (simp add: groupby_size_def image_image)

lemma groupby_size_key_in: "(k, n) \<in> set (groupby_size ks) \<Longrightarrow> k \<in> set ks"
  by (auto simp: groupby_size_def)

lemma map_of_groupby_size:
  "map_of (groupby_size ks) k = (if k \<in> set ks then Some (count_list ks k) else None)"
proof -
  have "map_of (map (\<lambda>k. (k, count_list ks k)) xs) k = (if k \<in> set xs then Some (count_list ks k) else None)"
    for xs :: "'a list"
    by (induction xs) auto
  then show ?thesis by (simp add: groupby_size_def)
qed

lemma group_count_groupby_size [simp]: "group_count (groupby_size ks) k = count_list ks k"
  by (simp add: group_count_def map_of_groupby_size count_list_0_iff)

lemma group_mset_map: "group_mset (map (\<lambda>k. (k, f k)) xs) = sum_list (map (\<lambda>k. replicate_mset (f k) k) xs)"
  by (simp add: group_mset_def comp_def)

lemma groupby_size_mset: "group_mset (groupby_size ks) = mset ks"
proof (rule multiset_eqI)
  fix x
  have "count (group_mset (groupby_size ks)) x
        = sum_list (map (\<lambda>k. count (replicate_mset (count_list ks k) k) x) (sort (remdups ks)))"
    by (simp add: groupby_size_def group_mset_map count_sum_list comp_def)
  also have "\<dots> = sum (\<lambda>k. if k = x then count_list ks k else 0) (set ks)"
    by (simp add: sum_list_distinct_conv_sum_set)
  also have "\<dots> = count (mset ks) x"
    by (simp add: count_mset count_list_0_iff)
  finally show "count (group_mset (groupby_size ks)) x = count (mset ks) x" .
qed

end
