(* ===== verification/PieChart.thy ===== *)
theory PieChart
  imports Layout GroupBy
begin

text \<open>
  The pie chart callback \<open>update_pie_chart(selected_site)\<close>
  (\<open>src/spacex_dash_app.py\<close>, lines 56--72), fired by the site dropdown. For
  \<open>'ALL'\<close> it groups the whole table by \<open>class\<close>; otherwise it first selects the rows
  whose \<open>Launch Site\<close> equals the dropdown value (no row for \<open>None\<close> or an unknown
  site). \<open>px.pie(data, names='class', values='counts', title=...)\<close> draws one slice
  per row of the grouped table; the figure keeps the slice names, the slice values and the
  title. The global \<open>spacex_df\<close> is passed as the parameter \<open>df\<close>.

  The abstract contract (spec section 4.1, \<open>computeOutcomeCounts\<close>) is
  \<open>outcome_counts\<close>: the multiset of outcomes of the selected rows.
\<close>

record pie_figure =
  pie_names :: "int list"
  pie_values :: "nat list"
  pie_title :: string

definition px_pie :: "(int \<times> nat) list \<Rightarrow> string \<Rightarrow> pie_figure" where
  "px_pie data title = \<lparr>pie_names = map fst data, pie_values = map snd data, pie_title = title\<rparr>"

definition update_pie_chart :: "dataframe \<Rightarrow> dropdown_value \<Rightarrow> pie_figure" where
  "update_pie_chart df selected_site =
     (if selected_site = Some ''ALL'' then
        (let pie_data = groupby_size (map outcome_class df)
         in px_pie pie_data ''Total Success vs Failed Launches'')
      else
        (let site_data = site_rows df selected_site;
             site_pie_data = groupby_size (map outcome_class site_data)
         in px_pie site_pie_data (''Success vs Failed Launches for '' @ py_fstr selected_site)))"

declare px_pie_def [callback_defs] update_pie_chart_def [callback_defs]

section \<open>Abstract contract\<close>

text \<open>The rows a site selection stands for, and the outcome multiset the pie must show.\<close>

definition selected_rows :: "dataframe \<Rightarrow> dropdown_value \<Rightarrow> dataframe" where
  "selected_rows df selected_site = (if selected_site = Some ''ALL'' then df else site_rows df selected_site)"

definition outcome_counts :: "dataframe \<Rightarrow> dropdown_value \<Rightarrow> int multiset" where
  "outcome_counts df selected_site = mset (map outcome_class (selected_rows df selected_site))"

text \<open>A drawn pie read back: the multiset of slice names weighted by slice values, and
  the value of one slice (0 when there is no slice of that name).\<close>

definition pie_mset :: "pie_figure \<Rightarrow> int multiset" where
  "pie_mset fig = group_mset (zip (pie_names fig) (pie_values fig))"

definition pie_count :: "pie_figure \<Rightarrow> int \<Rightarrow> nat" where
  "pie_count fig k = group_count (zip (pie_names fig) (pie_values fig)) k"

section \<open>Lemmas\<close>

lemma update_pie_chart_data:
  "update_pie_chart df s = px_pie (groupby_size (map outcome_class (selected_rows df s)))
     (if s = Some ''ALL'' then ''Total Success vs Failed Launches''
      else ''Success vs Failed Launches for '' @ py_fstr s)"
  by (simp add: update_pie_chart_def selected_rows_def Let_def)

lemma pie_figure_of_px_pie [simp]:
  "pie_names (px_pie d t) = map fst d" "pie_values (px_pie d t) = map snd d"
  "pie_title (px_pie d t) = t"
  "zip (pie_names (px_pie d t)) (pie_values (px_pie d t)) = d"
  by (simp_all add: px_pie_def zip_map_fst_snd)

lemma selected_rows_ALL [simp]: "selected_rows df (Some ''ALL'') = df"
  by (simp add: selected_rows_def)

lemma selected_rows_site [row_filter_simps]:
  "s \<noteq> ''ALL'' \<Longrightarrow> selected_rows df (Some s) = filter (\<lambda>r. launch_site r = s) df"
  by (simp add: selected_rows_def site_rows_def)

lemma selected_rows_None [simp]: "selected_rows df None = []"
  by (simp add: selected_rows_def site_rows_def)

lemma selected_rows_subseq: "subseq (selected_rows df s) df"
  by (simp add: selected_rows_def site_rows_def)

lemma pie_count_update_pie_chart:
  "pie_count (update_pie_chart df s) k = length (filter (\<lambda>r. outcome_class r = k) (selected_rows df s))"
  by (simp add: update_pie_chart_data pie_count_def count_list_map)

text \<open>
  Splitting the \<open>'ALL'\<close> pie over any list of distinct site names that holds every
  site of the table and not the sentinel \<open>'ALL'\<close>.
\<close>

lemma pie_count_sum_over_sites:
  assumes "distinct sites" and "set (map launch_site df) \<subseteq> set sites" and "''ALL'' \<notin> set sites"
  shows "pie_count (update_pie_chart df (Some ''ALL'')) k
         = sum_list (map (\<lambda>site. pie_count (update_pie_chart df (Some site)) k) sites)"
proof -
  have site: "pie_count (update_pie_chart df (Some site)) k
             = length (filter (\<lambda>r. launch_site r = site \<and> outcome_class r = k) df)"
    if "site \<in> set sites" for site
  proof -
    from that assms(3) have "site \<noteq> ''ALL''" by blast
    then show ?thesis
      by (simp add: pie_count_update_pie_chart row_filter_simps filter_filter conj_commute)
  qed
  have "sum_list (map (\<lambda>site. pie_count (update_pie_chart df (Some site)) k) sites)
        = sum_list (map (\<lambda>site. length (filter (\<lambda>r. launch_site r = site \<and> outcome_class r = k) df)) sites)"
    using site by (intro arg_cong [where f = sum_list] map_cong) auto
  also have "\<dots> = length (filter (\<lambda>r. outcome_class r = k) df)"
    using assms(1,2) by (rule sum_list_partition_length)
  finally show ?thesis
    by (simp add: pie_count_update_pie_chart)
qed

section \<open>Properties of the pie callback\<close>

text \<open>
  C1. The pie drawn for a dropdown value shows exactly the outcomes of the rows the value
  selects: read back as a multiset of outcomes (slice name counted slice-value times), it
  is the multiset of \<open>class\<close> values of the selected rows (spec 4.1,
  \<open>computeOutcomeCounts\<close>, raw counts, no normalisation).
\<close>

theorem update_pie_chart_refines: "pie_mset (update_pie_chart df s) = outcome_counts df s"
  by (simp add: update_pie_chart_data pie_mset_def outcome_counts_def groupby_size_mset)

text \<open>
  C2. The slice values of the pie add up to the number of rows the dropdown value selects:
  the whole table for \<open>'ALL'\<close>, the site's rows otherwise (spec 8, first property).
\<close>

theorem pie_total_eq_selected_rows:
  "sum_list (pie_values (update_pie_chart df s)) = length (selected_rows df s)"
  by (simp add: update_pie_chart_data sum_counts_groupby_size)

text \<open>
  C3. Partition consistency (spec 8, second property): when no row's site is literally
  named \<open>'ALL'\<close>, the \<open>'ALL'\<close> pie's slice for an outcome is the sum of that slice
  over the pies of the individual sites of the table.
\<close>

theorem pie_partition_by_site:
  assumes "''ALL'' \<notin> launch_site ` set df"
  shows "pie_count (update_pie_chart df (Some ''ALL'')) k
         = sum_list (map (\<lambda>site. pie_count (update_pie_chart df (Some site)) k)
                         (remdups (map launch_site df)))"
  using assms by (intro pie_count_sum_over_sites) auto

text \<open>
  C14. The pie has a slice for an outcome exactly when some selected row has that outcome:
  \<open>groupby\<close> never emits an empty group.
\<close>

theorem pie_slice_iff_outcome_present:
  "k \<in> set (pie_names (update_pie_chart df s)) \<longleftrightarrow> k \<in> outcome_class ` set (selected_rows df s)"
  by (simp add: update_pie_chart_data)

text \<open>
  C15. Shape of every pie figure: slice names strictly increasing (pandas sorts the group
  keys), no slice of value 0, and one value per name.
\<close>

theorem pie_shape:
  "sorted_wrt (<) (pie_names (update_pie_chart df s))
   \<and> 0 \<notin> set (pie_values (update_pie_chart df s))
   \<and> length (pie_names (update_pie_chart df s)) = length (pie_values (update_pie_chart df s))"
  using groupby_size_keys_sorted groupby_size_counts_pos
  by (fastforce simp: update_pie_chart_data)

text \<open>
  C16. A dropdown value other than \<open>'ALL'\<close> that names no site of the table (an
  unknown site, or \<open>None\<close> after clearing the dropdown) gives an empty pie, not an
  error (spec 7, empty result and invalid selection).
\<close>

theorem pie_empty_for_unmatched_site:
  assumes "s \<noteq> Some ''ALL''" and "s \<notin> Some ` launch_site ` set df"
  shows "pie_names (update_pie_chart df s) = [] \<and> pie_values (update_pie_chart df s) = []"
proof -
  from assms have "selected_rows df s = []"
    by (auto simp: selected_rows_def site_rows_def filter_empty_conv)
  then show ?thesis by (simp add: update_pie_chart_data)
qed

text \<open>
  C17. On a well-formed table every slice is named 0 or 1.
\<close>

theorem pie_names_wf:
  assumes "wf_dataframe df"
  shows "set (pie_names (update_pie_chart df s)) \<subseteq> {0, 1}"
proof -
  have "set (selected_rows df s) \<subseteq> set df"
    by (auto simp: selected_rows_def site_rows_def)
  with assms show ?thesis
    by (auto simp: update_pie_chart_data wf_dataframe_def wf_record_def list_all_iff
             dest!: groupby_size_key_in)
qed

text \<open>
  C22. Partition consistency over the dropdown (spec 8, second property, as stated):
  when every row's site is one of the four sites the dropdown offers, the \<open>'ALL'\<close>
  pie's slice for an outcome is the sum of that slice over the four site pies.
\<close>

theorem pie_partition_known_sites:
  assumes "set (map launch_site df) \<subseteq> set known_sites"
  shows "pie_count (update_pie_chart df (Some ''ALL'')) k
         = sum_list (map (\<lambda>site. pie_count (update_pie_chart df (Some site)) k) known_sites)"
proof (rule pie_count_sum_over_sites [OF _ assms])
  show "distinct known_sites" and "''ALL'' \<notin> set known_sites"
    by (simp_all add: known_sites_def site_options_def)
qed

end
