(* ===== verification/ScatterChart.thy ===== *)
theory ScatterChart
  imports Layout
begin

text \<open>
  The scatter chart callback \<open>update_scatter_chart(selected_site, payload_range)\<close>
  (\<open>src/spacex_dash_app.py\<close>, lines 75--99), fired by the site dropdown and by the
  payload slider. It unpacks the slider value into \<open>low, high\<close> (a \<open>ValueError\<close>
  unless the list has two elements), keeps the rows with
  \<open>low <= Payload Mass (kg) <= high\<close>, then, unless the dropdown says \<open>'ALL'\<close>, the
  rows of the selected site, and plots one point per kept row
  (x = payload, y = class, colour = class). \<open>update_layout\<close> then replaces the two axis
  titles that \<open>px.scatter\<close> derived from the column names.

  The abstract contract (spec 4.1, \<open>filterByRangeAndSite\<close>) is \<open>range_site_rows\<close>:
  one filter with the conjunction of the two conditions.
\<close>

record scatter_figure =
  scatter_points :: "(py_float \<times> int \<times> int) list"  \<comment> \<open>(x, y, colour) per point\<close>
  scatter_title :: string
  xaxis_title :: string
  yaxis_title :: string

text \<open>\<open>low, high = payload_range\<close>\<close>

definition unpack_pair :: "'a list \<Rightarrow> py_error + ('a \<times> 'a)" where
  "unpack_pair xs =
     (case xs of
        [a, b] \<Rightarrow> Inr (a, b)
      | _ \<Rightarrow>
          if length xs < 2
          then Inl (ValueError (''not enough values to unpack (expected 2, got ''
                                @ py_str_int (int (length xs)) @ '')''))
          else Inl (ValueError ''too many values to unpack (expected 2)''))"

text \<open>
  Lines 83--86: \<open>(df['Payload Mass (kg)'] >= low) & (df['Payload Mass (kg)'] <= high)\<close>,
  then the site selection when the dropdown is not \<open>'ALL'\<close>.
\<close>

definition scatter_data :: "dataframe \<Rightarrow> dropdown_value \<Rightarrow> py_float \<Rightarrow> py_float \<Rightarrow> dataframe" where
  "scatter_data df selected_site low high =
     (let filtered_data = filter (\<lambda>r. float_le low (payload_mass r) \<and> float_le (payload_mass r) high) df
      in if selected_site \<noteq> Some ''ALL'' then site_rows filtered_data selected_site else filtered_data)"

text \<open>\<open>px.scatter(data, x='Payload Mass (kg)', y='class', color='class', title=...)\<close>\<close>

definition px_scatter :: "dataframe \<Rightarrow> string \<Rightarrow> scatter_figure" where
  "px_scatter data title =
     \<lparr>scatter_points = map (\<lambda>r. (payload_mass r, outcome_class r, outcome_class r)) data,
      scatter_title = title, xaxis_title = ''Payload Mass (kg)'', yaxis_title = ''class''\<rparr>"

definition update_layout :: "scatter_figure \<Rightarrow> string \<Rightarrow> string \<Rightarrow> scatter_figure" where
  "update_layout fig x_title y_title = fig\<lparr>xaxis_title := x_title, yaxis_title := y_title\<rparr>"

definition update_scatter_chart ::
  "dataframe \<Rightarrow> dropdown_value \<Rightarrow> py_float list \<Rightarrow> py_error + scatter_figure" where
  "update_scatter_chart df selected_site payload_range =
     (case unpack_pair payload_range of
        Inl e \<Rightarrow> Inl e
      | Inr (low, high) \<Rightarrow>
          (let filtered_data = scatter_data df selected_site low high;
               scatter_fig = px_scatter filtered_data
                 (''Payload vs Launch Success for ''
                  @ (if selected_site \<noteq> Some ''ALL'' then py_fstr selected_site else ''All Sites''))
           in Inr (update_layout scatter_fig ''Payload Mass (kg)''
                     ''Launch Success (1 = Success, 0 = Failure)'')))"

declare px_scatter_def [callback_defs] update_layout_def [callback_defs]
  update_scatter_chart_def [callback_defs]

section \<open>Abstract contract\<close>

definition in_payload_range :: "py_float \<Rightarrow> py_float \<Rightarrow> launch_record \<Rightarrow> bool" where
  "in_payload_range low high r \<longleftrightarrow> float_le low (payload_mass r) \<and> float_le (payload_mass r) high"

definition range_site_rows :: "dataframe \<Rightarrow> dropdown_value \<Rightarrow> py_float \<Rightarrow> py_float \<Rightarrow> dataframe" where
  "range_site_rows df s low high =
     filter (\<lambda>r. in_payload_range low high r \<and> (s = Some ''ALL'' \<or> Some (launch_site r) = s)) df"

definition scatter_point :: "launch_record \<Rightarrow> py_float \<times> int \<times> int" where
  "scatter_point r = (payload_mass r, outcome_class r, outcome_class r)"

section \<open>Lemmas\<close>

lemma unpack_pair_two [simp]: "unpack_pair [a, b] = Inr (a, b)"
  by (simp add: unpack_pair_def)

lemma unpack_pair_Inr_iff: "unpack_pair xs = Inr p \<longleftrightarrow> xs = [fst p, snd p]"
  by (cases p) (auto simp: unpack_pair_def split: list.splits)

lemma scatter_data_eq [row_filter_simps]: "scatter_data df s low high = range_site_rows df s low high"
  by (auto simp: scatter_data_def range_site_rows_def in_payload_range_def site_rows_def
      filter_filter Let_def intro: filter_cong)

lemma update_scatter_chart_pair:
  "update_scatter_chart df s [low, high] =
     Inr \<lparr>scatter_points = map scatter_point (range_site_rows df s low high),
          scatter_title = ''Payload vs Launch Success for ''
                          @ (if s \<noteq> Some ''ALL'' then py_fstr s else ''All Sites''),
          xaxis_title = ''Payload Mass (kg)'',
          yaxis_title = ''Launch Success (1 = Success, 0 = Failure)''\<rparr>"
  by (simp add: update_scatter_chart_def px_scatter_def update_layout_def scatter_point_def
      scatter_data_eq comp_def)

lemma in_full_payload_range:
  assumes "r \<in> set df" and "payload_mass r \<noteq> NaN"
  shows "in_payload_range (min_payload df) (max_payload df) r"
proof -
  from assms obtain x where x: "payload_mass r = Fin x"
    by (cases "payload_mass r") auto
  with assms(1) have mem: "Fin x \<in> set (map payload_mass df)" by force
  then obtain lo where lo: "min_payload df = Fin lo"
    unfolding min_payload_def by (cases "column_min (map payload_mass df)") (auto simp: column_min_NaN_iff)
  from mem obtain hi where hi: "max_payload df = Fin hi"
    unfolding max_payload_def by (cases "column_max (map payload_mass df)") (auto simp: column_max_NaN_iff)
  from lo hi mem have "lo \<le> x \<and> x \<le> hi"
    by (auto simp: min_payload_def max_payload_def column_min_Fin column_max_Fin)
  with x lo hi show ?thesis by (simp add: in_payload_range_def)
qed

section \<open>Properties of the scatter callback\<close>

text \<open>
  C4. For a two-element slider value \<open>[low, high]\<close> the callback returns a figure whose
  points are those of the rows with \<open>low <= payload <= high\<close> and, unless the dropdown
  says \<open>'ALL'\<close>, the selected site, in table order (spec 4.1,
  \<open>filterByRangeAndSite\<close>).
\<close>

theorem update_scatter_chart_points:
  "\<exists>fig. update_scatter_chart df s [low, high] = Inr fig
         \<and> scatter_points fig = map scatter_point (range_site_rows df s low high)"
  by (simp add: update_scatter_chart_pair)

text \<open>
  C5. With the slider at its initial value \<open>[min_payload, max_payload]\<close> and the
  dropdown at \<open>'ALL'\<close>, every row of a table whose payloads are all numbers is plotted,
  in order (spec 8, third property).
\<close>

theorem scatter_full_range_all:
  assumes "\<forall>r \<in> set df. payload_mass r \<noteq> NaN"
  shows "\<exists>fig. update_scatter_chart df (Some ''ALL'') [min_payload df, max_payload df] = Inr fig
               \<and> scatter_points fig = map scatter_point df"
proof -
  from assms have "range_site_rows df (Some ''ALL'') (min_payload df) (max_payload df) = df"
    by (simp add: range_site_rows_def in_full_payload_range)
  then show ?thesis by (simp add: update_scatter_chart_pair)
qed

text \<open>
  C6. Narrowing the payload interval can only drop points: the rows kept for
  \<open>[low2, high2]\<close> are a subsequence of those kept for \<open>[low1, high1]\<close> when
  \<open>low1 <= low2\<close> and \<open>high2 <= high1\<close> (spec 8, fourth property).
\<close>

theorem scatter_data_narrowing:
  assumes "float_le low1 low2" and "float_le high2 high1"
  shows "subseq (scatter_data df s low2 high2) (scatter_data df s low1 high1)"
proof -
  have "in_payload_range low1 high1 r" if "in_payload_range low2 high2 r" for r
    using that assms float_le_trans by (meson in_payload_range_def)
  then show ?thesis
    unfolding scatter_data_eq range_site_rows_def by (intro subseq_filter_mono) blast
qed

text \<open>
  C7. Error path of the callback: it raises (\<open>ValueError\<close> from unpacking) exactly
  when the slider value does not have two elements.
\<close>

theorem update_scatter_chart_unpack_error:
  "(\<exists>e. update_scatter_chart df s payload_range = Inl e) \<longleftrightarrow> length payload_range \<noteq> 2"
proof (cases "unpack_pair payload_range")
  case (Inl e)
  then have "length payload_range \<noteq> 2"
    by (auto simp: length_Suc_conv numeral_2_eq_2)
  with Inl show ?thesis by (simp add: update_scatter_chart_def)
next
  case (Inr p)
  then show ?thesis
    by (auto simp: update_scatter_chart_def unpack_pair_Inr_iff Let_def split: prod.splits)
qed

text \<open>
  C18. An inverted interval (\<open>low > high\<close>), which the range control prevents but the
  callback does not check, plots nothing.
\<close>

theorem scatter_empty_inverted_range:
  assumes "b < a"
  shows "scatter_data df s (Fin a) (Fin b) = []"
  using assms by (auto simp: scatter_data_eq range_site_rows_def in_payload_range_def filter_empty_conv)

text \<open>
  C19. A row whose payload cell is NaN is never plotted, whatever the interval: every
  comparison with NaN is false.
\<close>

theorem scatter_skips_nan_payload:
  assumes "payload_mass r = NaN"
  shows "r \<notin> set (scatter_data df s low high)"
  using assms by (simp add: scatter_data_eq range_site_rows_def in_payload_range_def)

text \<open>
  C28. The error the scatter callback raises for a slider value that is not a pair is
  the \<open>ValueError\<close> of tuple unpacking, with CPython's message: the number of values
  received when there are fewer than two, "too many values" otherwise.
\<close>

theorem update_scatter_chart_unpack_message:
  assumes "length payload_range \<noteq> 2"
  shows "update_scatter_chart df s payload_range =
           Inl (ValueError
             (if length payload_range < 2
              then ''not enough values to unpack (expected 2, got ''
                   @ py_str_int (int (length payload_range)) @ '')''
              else ''too many values to unpack (expected 2)''))"
proof -
  have "unpack_pair payload_range =
          Inl (ValueError
             (if length payload_range < 2
              then ''not enough values to unpack (expected 2, got ''
                   @ py_str_int (int (length payload_range)) @ '')''
              else ''too many values to unpack (expected 2)''))"
    using assms
    by (auto simp: unpack_pair_def split: list.split)
  then show ?thesis by (simp add: update_scatter_chart_def)
qed

end
