(* ===== verification/Dashboard.thy ===== *)
theory Dashboard
  imports PieChart ScatterChart
begin

text \<open>
  The running app (\<open>src/spacex_dash_app.py\<close>, lines 14--15, 55--59, 74--79 and
  101--103): the layout, the current values of the two inputs, and the figures of the
  two graphs. The \<open>@app.callback\<close> decorators wire \<open>update_pie_chart\<close> to the dropdown
  and \<open>update_scatter_chart\<close> to the dropdown and the slider. An input change runs every
  callback that has it as an input, in one request per callback; a callback that raises
  leaves its output as it was. When the page loads, Dash runs every callback once with
  the initial input values. The dataset is never written after startup.

  \<open>dispatch\<close> is the deterministic effect of one input event; \<open>ui_event\<close> says which
  events the two controls can emit (a dropdown option or a cleared dropdown; two slider
  handles inside \<open>[min, max]\<close>, in order); \<open>reachable\<close> is the set of states of a
  session.
\<close>

record dashboard =
  table :: dataframe                      \<comment> \<open>\<open>spacex_df\<close>\<close>
  layout :: app_layout                    \<comment> \<open>\<open>app.layout\<close>\<close>
  site_value :: dropdown_value            \<comment> \<open>\<open>site-dropdown.value\<close>\<close>
  slider_value :: "py_float list"         \<comment> \<open>\<open>payload-slider.value\<close>\<close>
  pie_fig :: "pie_figure option"          \<comment> \<open>\<open>success-pie-chart.figure\<close>\<close>
  scatter_fig :: "scatter_figure option"  \<comment> \<open>\<open>success-payload-scatter-chart.figure\<close>\<close>

datatype input_event = SiteSelected dropdown_value | RangeMoved "py_float list"

text \<open>A callback's result written to its output: kept as it was when the callback raised.\<close>

definition set_output :: "py_error + 'a \<Rightarrow> 'a option \<Rightarrow> 'a option" where
  "set_output r old = (case r of Inl _ \<Rightarrow> old | Inr fig \<Rightarrow> Some fig)"

definition fire_pie :: "dashboard \<Rightarrow> dashboard" where
  "fire_pie d = d\<lparr>pie_fig := Some (update_pie_chart (table d) (site_value d))\<rparr>"

definition fire_scatter :: "dashboard \<Rightarrow> dashboard" where
  "fire_scatter d =
     d\<lparr>scatter_fig := set_output (update_scatter_chart (table d) (site_value d) (slider_value d))
                                (scatter_fig d)\<rparr>"

fun dispatch :: "dashboard \<Rightarrow> input_event \<Rightarrow> dashboard" where
  "dispatch d (SiteSelected v) = fire_scatter (fire_pie (d\<lparr>site_value := v\<rparr>))"
| "dispatch d (RangeMoved xs) = fire_scatter (d\<lparr>slider_value := xs\<rparr>)"

definition app_start :: "dataframe \<Rightarrow> py_error + dashboard" where
  "app_start df =
     (case make_layout df of
        Inl e \<Rightarrow> Inl e
      | Inr L \<Rightarrow> Inr (fire_scatter (fire_pie
          \<lparr>table = df, layout = L, site_value = dd_value (site_dropdown L),
           slider_value = rs_value (payload_slider L), pie_fig = None, scatter_fig = None\<rparr>)))"

text \<open>A session's input events handled one after the other.\<close>

fun run :: "dashboard \<Rightarrow> input_event list \<Rightarrow> dashboard" where
  "run d [] = d"
| "run d (e # es) = run (dispatch d e) es"

text \<open>The last dropdown value of a run of events, if the run changes the dropdown.\<close>

fun last_site :: "input_event list \<Rightarrow> dropdown_value option" where
  "last_site [] = None"
| "last_site (SiteSelected v # es) = (case last_site es of None \<Rightarrow> Some v | Some w \<Rightarrow> Some w)"
| "last_site (RangeMoved _ # es) = last_site es"

text \<open>
  The values a handle of the range slider (lines 42--49) can take. rc-slider, the component
  behind \<open>dcc.RangeSlider\<close>, keeps a value inside \<open>[min, max]\<close> and moves the handle to
  the closest of two kinds of point: the marks, and the step points \<open>min + k * step\<close>
  (\<open>k = 0, 1, ...\<close> up to the last one not above \<open>max\<close>). A mark below \<open>min\<close> is never
  closest, since the step point chosen lies between \<open>min\<close> and the value, and the marks of
  line 47 are below \<open>int(max)\<close>; so a handle takes exactly the step points and the marks
  inside \<open>[min, max]\<close>. \<open>max\<close> itself is a point only when it is a step point or a mark.
  The two handles emit their values in order.
\<close>

definition slider_points :: "range_slider \<Rightarrow> real list" where
  "slider_points sl =
     (case (rs_min sl, rs_max sl) of
        (Fin lo, Fin hi) \<Rightarrow>
          map (\<lambda>k. lo + real k * of_int (rs_step sl)) [0..<Suc (nat \<lfloor>(hi - lo) / of_int (rs_step sl)\<rfloor>)]
          @ filter (\<lambda>x. lo \<le> x \<and> x \<le> hi) (map (\<lambda>mk. of_int (fst mk)) (rs_marks sl))
      | _ \<Rightarrow> [])"

fun slider_emits :: "range_slider \<Rightarrow> py_float list \<Rightarrow> bool" where
  "slider_emits sl [Fin a, Fin b] \<longleftrightarrow> a \<in> set (slider_points sl) \<and> b \<in> set (slider_points sl) \<and> a \<le> b"
| "slider_emits sl _ \<longleftrightarrow> False"

fun ui_event :: "app_layout \<Rightarrow> input_event \<Rightarrow> bool" where
  "ui_event L (SiteSelected v) \<longleftrightarrow> v = None \<or> v \<in> Some ` set (map opt_value (dd_options (site_dropdown L)))"
| "ui_event L (RangeMoved xs) \<longleftrightarrow> slider_emits (payload_slider L) xs"

inductive reachable :: "dataframe \<Rightarrow> dashboard \<Rightarrow> bool" for df where
  start: "app_start df = Inr d \<Longrightarrow> reachable df d"
| step: "reachable df d \<Longrightarrow> ui_event (layout d) e \<Longrightarrow> reachable df (dispatch d e)"

section \<open>Invariant\<close>

text \<open>
  What every state of a session keeps: the table and the layout are those of startup,
  the slider holds an ordered pair of numbers, and each graph shows its callback's
  result on the current input values.
\<close>

definition dash_inv :: "dataframe \<Rightarrow> dashboard \<Rightarrow> bool" where
  "dash_inv df d \<longleftrightarrow>
     table d = df \<and> make_layout df = Inr (layout d)
     \<and> (\<exists>a b. slider_value d = [Fin a, Fin b] \<and> a \<le> b)
     \<and> pie_fig d = Some (update_pie_chart df (site_value d))
     \<and> (\<exists>fig. scatter_fig d = Some fig \<and> update_scatter_chart df (site_value d) (slider_value d) = Inr fig)"

section \<open>Lemmas\<close>

lemma fire_frame [simp]:
  "table (fire_pie d) = table d" "layout (fire_pie d) = layout d"
  "site_value (fire_pie d) = site_value d" "slider_value (fire_pie d) = slider_value d"
  "scatter_fig (fire_pie d) = scatter_fig d"
  "table (fire_scatter d) = table d" "layout (fire_scatter d) = layout d"
  "site_value (fire_scatter d) = site_value d" "slider_value (fire_scatter d) = slider_value d"
  "pie_fig (fire_scatter d) = pie_fig d"
  by (simp_all add: fire_pie_def fire_scatter_def)

lemma table_dispatch [simp]: "table (dispatch d e) = table d"
  by (cases e) simp_all

lemma layout_dispatch [simp]: "layout (dispatch d e) = layout d"
  by (cases e) simp_all

lemma pie_fig_fire_pie [simp]: "pie_fig (fire_pie d) = Some (update_pie_chart (table d) (site_value d))"
  by (simp add: fire_pie_def)

lemma scatter_fig_fire_scatter_pair [simp]:
  "slider_value d = [low, high] \<Longrightarrow>
   update_scatter_chart (table d) (site_value d) [low, high] = Inr fig \<Longrightarrow>
   scatter_fig (fire_scatter d) = Some fig"
  by (simp add: fire_scatter_def set_output_def)

lemma min_le_max_payload:
  assumes "max_payload df = Fin hi"
  obtains lo where "min_payload df = Fin lo" and "lo \<le> hi"
proof -
  from assms have "Fin hi \<in> set (map payload_mass df)"
    by (simp add: max_payload_def column_max_Fin)
  then obtain lo where lo: "min_payload df = Fin lo"
    unfolding min_payload_def by (cases "column_min (map payload_mass df)") (auto simp: column_min_NaN_iff)
  with assms have "lo \<le> hi"
    by (auto simp: min_payload_def max_payload_def column_min_Fin column_max_Fin)
  with lo show ?thesis by (rule that)
qed

lemma make_layout_step: "make_layout df = Inr L \<Longrightarrow> rs_step (payload_slider L) = 1000"
  by (auto simp: make_layout_def split: sum.splits)

text \<open>The step points of a slider: every \<open>min + k * step\<close> not above \<open>max\<close>.\<close>

lemma slider_points_step:
  assumes "rs_min sl = Fin lo" and "rs_max sl = Fin hi" and "0 < rs_step sl"
    and "real k * of_int (rs_step sl) \<le> hi - lo"
  shows "lo + real k * of_int (rs_step sl) \<in> set (slider_points sl)"
proof -
  have "real k \<le> (hi - lo) / of_int (rs_step sl)"
    using assms(3,4) by (simp add: pos_le_divide_eq)
  then have "int k \<le> \<lfloor>(hi - lo) / of_int (rs_step sl)\<rfloor>"
    by (simp add: le_floor_iff)
  then have "k < Suc (nat \<lfloor>(hi - lo) / of_int (rs_step sl)\<rfloor>)"
    by linarith
  with assms(1,2) show ?thesis
    by (auto simp: slider_points_def)
qed

lemma make_layout_Inr:
  assumes "make_layout df = Inr L"
  shows "\<exists>lo hi. min_payload df = Fin lo \<and> max_payload df = Fin hi \<and> lo \<le> hi
           \<and> rs_min (payload_slider L) = Fin lo \<and> rs_max (payload_slider L) = Fin hi
           \<and> rs_value (payload_slider L) = [Fin lo, Fin hi]
           \<and> dd_value (site_dropdown L) = Some ''ALL''
           \<and> dd_options (site_dropdown L) = site_options"
proof -
  from assms obtain hi where hi: "max_payload df = Fin hi"
    using make_layout_Inr_iff by blast
  then obtain lo where "min_payload df = Fin lo" and "lo \<le> hi"
    by (rule min_le_max_payload)
  with hi assms show ?thesis
    by (auto simp: make_layout_def split: sum.splits)
qed

lemma update_scatter_chart_two_Inr:
  "\<exists>fig. update_scatter_chart df s [low, high] = Inr fig"
  by (simp add: update_scatter_chart_pair)

lemma dash_inv_fire_both:
  assumes "table d = df" and "make_layout df = Inr (layout d)"
    and "slider_value d = [Fin a, Fin b]" and "a \<le> b"
  shows "dash_inv df (fire_scatter (fire_pie d))"
proof -
  obtain fig where fig: "update_scatter_chart df (site_value d) [Fin a, Fin b] = Inr fig"
    using update_scatter_chart_two_Inr by blast
  with assms show ?thesis
    by (auto simp: dash_inv_def)
qed

lemma dash_inv_fire_scatter:
  assumes "table d = df" and "make_layout df = Inr (layout d)"
    and "slider_value d = [Fin a, Fin b]" and "a \<le> b"
    and "pie_fig d = Some (update_pie_chart df (site_value d))"
  shows "dash_inv df (fire_scatter d)"
proof -
  obtain fig where fig: "update_scatter_chart df (site_value d) [Fin a, Fin b] = Inr fig"
    using update_scatter_chart_two_Inr by blast
  with assms show ?thesis
    by (auto simp: dash_inv_def)
qed

lemma dash_inv_start:
  assumes "app_start df = Inr d"
  shows "dash_inv df d"
proof -
  from assms obtain L where L: "make_layout df = Inr L"
    and d: "d = fire_scatter (fire_pie
          \<lparr>table = df, layout = L, site_value = dd_value (site_dropdown L),
           slider_value = rs_value (payload_slider L), pie_fig = None, scatter_fig = None\<rparr>)"
    by (auto simp: app_start_def split: sum.splits)
  from make_layout_Inr [OF L] obtain lo hi
    where "rs_value (payload_slider L) = [Fin lo, Fin hi]" and "lo \<le> hi"
    by blast
  with L show ?thesis
    unfolding d by (intro dash_inv_fire_both) simp_all
qed

lemma dash_inv_step:
  assumes inv: "dash_inv df d" and ev: "ui_event (layout d) e"
  shows "dash_inv df (dispatch d e)"
proof (cases e)
  case (SiteSelected v)
  from inv obtain a b where "slider_value d = [Fin a, Fin b]" and "a \<le> b"
    by (auto simp: dash_inv_def)
  with inv have "dash_inv df (fire_scatter (fire_pie (d\<lparr>site_value := v\<rparr>)))"
    by (intro dash_inv_fire_both) (auto simp: dash_inv_def)
  with SiteSelected show ?thesis by simp
next
  case (RangeMoved xs)
  with ev obtain a b where xs: "xs = [Fin a, Fin b]" and "a \<le> b"
    by (auto elim: slider_emits.elims)
  with inv have "dash_inv df (fire_scatter (d\<lparr>slider_value := xs\<rparr>))"
    by (intro dash_inv_fire_scatter) (auto simp: dash_inv_def)
  with RangeMoved show ?thesis by simp
qed

lemma reachable_dash_inv: "reachable df d \<Longrightarrow> dash_inv df d"
proof (induction rule: reachable.induct)
  case (start d)
  then show ?case by (rule dash_inv_start)
next
  case (step d e)
  then show ?case by (blast intro: dash_inv_step)
qed

lemma app_start_Inr:
  assumes "app_start df = Inr d"
  shows "table d = df \<and> site_value d = Some ''ALL''
         \<and> slider_value d = [min_payload df, max_payload df]
         \<and> pie_fig d = Some (update_pie_chart df (Some ''ALL''))"
  using assms make_layout_Inr [of df]
  by (auto simp: app_start_def split: sum.splits)

lemma scatter_fig_dispatch_pair:
  assumes "slider_value (dispatch d e) = [low, high]"
  shows "scatter_fig (dispatch d e)
         = Some (projr (update_scatter_chart (table d) (site_value (dispatch d e)) [low, high]))"
  using assms
  by (cases e) (auto simp: fire_scatter_def fire_pie_def set_output_def update_scatter_chart_pair)

lemma run_Cons_last: "es \<noteq> [] \<Longrightarrow> \<exists>d' e. run d es = dispatch d' e \<and> table d' = table d"
proof (induction es arbitrary: d)
  case Nil
  then show ?case by simp
next
  case (Cons e es)
  show ?case
  proof (cases "es = []")
    case True
    then show ?thesis by auto
  next
    case False
    from Cons.IH [OF False, of "dispatch d e"] show ?thesis by auto
  qed
qed

section \<open>Properties of the running dashboard\<close>

text \<open>
  C8. In every state of a session each graph shows what its callback computes from the
  current input values: the pie is \<open>update_pie_chart\<close> of the dropdown value, and the
  scatter figure is the (successful) result of \<open>update_scatter_chart\<close> on the dropdown
  and slider values.
\<close>

theorem reachable_charts_consistent:
  assumes "reachable df d"
  shows "pie_fig d = Some (update_pie_chart df (site_value d))
         \<and> (\<exists>fig. scatter_fig d = Some fig
                  \<and> update_scatter_chart df (site_value d) (slider_value d) = Inr fig)"
  using reachable_dash_inv [OF assms] by (simp add: dash_inv_def)

text \<open>
  C9. Moving the slider redraws only the scatter chart: the pie figure and the dropdown
  value are unchanged.
\<close>

theorem slider_event_keeps_pie:
  "pie_fig (dispatch d (RangeMoved xs)) = pie_fig d \<and> site_value (dispatch d (RangeMoved xs)) = site_value d"
  by simp

text \<open>
  C10. The order of a dropdown change and a slider move does not matter: for a slider
  value of two handles both orders end in the same state.
\<close>

theorem dispatch_commute:
  assumes "length xs = 2"
  shows "dispatch (dispatch d (SiteSelected v)) (RangeMoved xs)
         = dispatch (dispatch d (RangeMoved xs)) (SiteSelected v)"
proof -
  from assms obtain a b where xs: "xs = [a, b]"
    by (auto simp: length_Suc_conv numeral_2_eq_2)
  then show ?thesis
    by (simp add: fire_pie_def fire_scatter_def set_output_def update_scatter_chart_pair)
qed

text \<open>
  C21. Startup: the page opens with the dropdown at \<open>'ALL'\<close>, the slider at
  \<open>[min_payload, max_payload]\<close> and the pie of the whole table.
\<close>

theorem app_start_initial:
  assumes "app_start df = Inr d"
  shows "site_value d = Some ''ALL'' \<and> slider_value d = [min_payload df, max_payload df]
         \<and> pie_fig d = Some (update_pie_chart df (Some ''ALL''))"
  using app_start_Inr [OF assms] by simp

text \<open>
  C12. Startup fails, with the \<open>ValueError\<close> of \<open>int(max_payload)\<close> on line 47,
  exactly when the payload column holds no number (an empty table included): the
  maximum is then NaN.
\<close>

theorem app_start_fails_iff:
  "(\<exists>e. app_start df = Inl e) \<longleftrightarrow> (\<forall>r \<in> set df. payload_mass r = NaN)"
proof -
  have "(\<exists>e. app_start df = Inl e) \<longleftrightarrow> (\<nexists>L. make_layout df = Inr L)"
    by (cases "make_layout df") (simp_all add: app_start_def)
  also have "\<dots> \<longleftrightarrow> max_payload df = NaN"
    by (cases "max_payload df") (simp_all add: make_layout_Inr_iff)
  also have "\<dots> \<longleftrightarrow> (\<forall>r \<in> set df. \<forall>x. payload_mass r \<noteq> Fin x)"
    unfolding max_payload_def column_max_NaN_iff set_map by (metis imageE image_eqI)
  also have "\<dots> \<longleftrightarrow> (\<forall>r \<in> set df. payload_mass r = NaN)"
    by (simp add: all_not_Fin_iff)
  finally show ?thesis .
qed

text \<open>
  C23. After any run of input events the pie and the dropdown value depend only on the
  last dropdown value of the run: slider moves in between, earlier dropdown values and
  their order leave no trace; a run without dropdown change leaves both as they were.
\<close>

theorem run_pie_last_site:
  "pie_fig (run d es) = (case last_site es of None \<Rightarrow> pie_fig d | Some v \<Rightarrow> Some (update_pie_chart (table d) v))
   \<and> site_value (run d es) = (case last_site es of None \<Rightarrow> site_value d | Some v \<Rightarrow> v)"
proof (induction es arbitrary: d)
  case Nil
  then show ?case by simp
next
  case (Cons e es)
  then show ?case
    by (cases e) (simp_all split: option.split)
qed

text \<open>
  C24. After any non-empty run of input events that leaves the slider at a pair of
  values, the scatter figure is the result of \<open>update_scatter_chart\<close> on the final
  dropdown and slider values: every event runs the scatter callback, so the figure never
  lags behind the inputs.
\<close>

theorem run_scatter_last_inputs:
  assumes "es \<noteq> []" and "length (slider_value (run d es)) = 2"
  shows "\<exists>fig. update_scatter_chart (table d) (site_value (run d es)) (slider_value (run d es)) = Inr fig
               \<and> scatter_fig (run d es) = Some fig"
proof -
  from run_Cons_last [OF assms(1)] obtain d' e where run: "run d es = dispatch d' e"
    and tbl: "table d' = table d" by blast
  from assms(2) obtain low high where sl: "slider_value (run d es) = [low, high]"
    by (auto simp: length_Suc_conv numeral_2_eq_2)
  with run scatter_fig_dispatch_pair [of d' e low high] tbl show ?thesis
    by (simp add: update_scatter_chart_pair)
qed


end
