(* ===== verification/Callbacks.thy ===== *)
theory Callbacks
  imports Dashboard
begin

text \<open>
  The callback wiring of \<open>src/spacex_dash_app.py\<close> as Dash holds it: each
  \<open>@app.callback(Output(id, prop), Input(id, prop), ...)\<close> decorator (lines 56--59 and
  75--79) registers the decorated function with one output property and a list of input
  properties, in the order the module runs. The page's state is a store of component
  properties. When an input property changes, Dash stores the new value and runs every
  registered callback that lists it as an input, passing the current values of its inputs
  as positional arguments; a callback that raises leaves its output as it was. At page
  load every callback runs once on the layout's values.

  \<open>dash_set\<close> and \<open>dash_load\<close> are this generic behaviour over any registry;
  \<open>app_callbacks\<close> is the registry the two decorators build. The theorems show that the
  generic behaviour over this registry is the hand-wired \<open>dispatch\<close> and \<open>app_start\<close> of
  \<open>Dashboard\<close>, and that it does not depend on the order in which Dash serves the
  triggered callbacks.
\<close>

text \<open>The properties of the layout's components that callbacks read or write.\<close>

datatype dash_prop =
    SiteDropdownValue | PayloadSliderValue | SuccessPieChartFigure | SuccessPayloadScatterChartFigure

fun prop_id :: "dash_prop \<Rightarrow> string \<times> string" where
  "prop_id SiteDropdownValue = (''site-dropdown'', ''value'')"
| "prop_id PayloadSliderValue = (''payload-slider'', ''value'')"
| "prop_id SuccessPieChartFigure = (''success-pie-chart'', ''figure'')"
| "prop_id SuccessPayloadScatterChartFigure = (''success-payload-scatter-chart'', ''figure'')"

text \<open>A property's value; a graph's figure is \<open>None\<close> until a callback has drawn it.\<close>

datatype dash_value =
    DDropdown dropdown_value | DSlider "py_float list"
  | DPie "pie_figure option" | DScatter "scatter_figure option"

type_synonym dash_store = "dash_prop \<Rightarrow> dash_value"

record dash_callback =
  cb_output :: dash_prop
  cb_inputs :: "dash_prop list"
  cb_function :: "dash_value list \<Rightarrow> py_error + dash_value"

text \<open>
  The decorated functions as Dash calls them: the input values as positional arguments,
  the returned figure written to the output. Other arguments (another arity, or a value
  of another component) stand for a Python \<open>TypeError\<close>; no registration below passes
  them.
\<close>

fun pie_callback :: "dataframe \<Rightarrow> dash_value list \<Rightarrow> py_error + dash_value" where
  "pie_callback df [DDropdown selected_site] = Inr (DPie (Some (update_pie_chart df selected_site)))"
| "pie_callback df _ = Inl (TypeError ''update_pie_chart() arguments do not match its signature'')"

fun scatter_callback :: "dataframe \<Rightarrow> dash_value list \<Rightarrow> py_error + dash_value" where
  "scatter_callback df [DDropdown selected_site, DSlider payload_range] =
     (case update_scatter_chart df selected_site payload_range of
        Inl e \<Rightarrow> Inl e
      | Inr fig \<Rightarrow> Inr (DScatter (Some fig)))"
| "scatter_callback df _ = Inl (TypeError ''update_scatter_chart() arguments do not match its signature'')"

definition pie_registration :: "dataframe \<Rightarrow> dash_callback" where
  "pie_registration df =
     \<lparr>cb_output = SuccessPieChartFigure, cb_inputs = [SiteDropdownValue],
      cb_function = pie_callback df\<rparr>"

definition scatter_registration :: "dataframe \<Rightarrow> dash_callback" where
  "scatter_registration df =
     \<lparr>cb_output = SuccessPayloadScatterChartFigure, cb_inputs = [SiteDropdownValue, PayloadSliderValue],
      cb_function = scatter_callback df\<rparr>"

definition app_callbacks :: "dataframe \<Rightarrow> dash_callback list" where
  "app_callbacks df = [pie_registration df, scatter_registration df]"

section \<open>Dash's handling of the registry\<close>

definition run_callback :: "dash_callback \<Rightarrow> dash_store \<Rightarrow> dash_store" where
  "run_callback cb st =
     (case cb_function cb (map st (cb_inputs cb)) of
        Inl _ \<Rightarrow> st
      | Inr v \<Rightarrow> st(cb_output cb := v))"

definition triggered :: "dash_callback list \<Rightarrow> dash_prop \<Rightarrow> dash_callback list" where
  "triggered cbs p = filter (\<lambda>cb. p \<in> set (cb_inputs cb)) cbs"

definition dash_set :: "dash_callback list \<Rightarrow> dash_store \<Rightarrow> dash_prop \<Rightarrow> dash_value \<Rightarrow> dash_store" where
  "dash_set cbs st p v = fold run_callback (triggered cbs p) (st(p := v))"

definition dash_load :: "dash_callback list \<Rightarrow> dash_store \<Rightarrow> dash_store" where
  "dash_load cbs st = fold run_callback cbs st"

text \<open>
  A registry Dash accepts and that has no chained callbacks: outputs are distinct (Dash
  rejects a duplicate output) and no output is an input of a callback.
\<close>

definition wf_registry :: "dash_callback list \<Rightarrow> bool" where
  "wf_registry cbs \<longleftrightarrow> distinct (map cb_output cbs)
     \<and> (\<forall>c \<in> set cbs. \<forall>c' \<in> set cbs. cb_output c \<notin> set (cb_inputs c'))"

section \<open>The dashboard as a property store\<close>

definition store_of :: "dashboard \<Rightarrow> dash_store" where
  "store_of d = (\<lambda>p. case p of
       SiteDropdownValue \<Rightarrow> DDropdown (site_value d)
     | PayloadSliderValue \<Rightarrow> DSlider (slider_value d)
     | SuccessPieChartFigure \<Rightarrow> DPie (pie_fig d)
     | SuccessPayloadScatterChartFigure \<Rightarrow> DScatter (scatter_fig d))"

definition layout_store :: "app_layout \<Rightarrow> dash_store" where
  "layout_store L = (\<lambda>p. case p of
       SiteDropdownValue \<Rightarrow> DDropdown (dd_value (site_dropdown L))
     | PayloadSliderValue \<Rightarrow> DSlider (rs_value (payload_slider L))
     | SuccessPieChartFigure \<Rightarrow> DPie None
     | SuccessPayloadScatterChartFigure \<Rightarrow> DScatter None)"

fun event_prop :: "input_event \<Rightarrow> dash_prop \<times> dash_value" where
  "event_prop (SiteSelected v) = (SiteDropdownValue, DDropdown v)"
| "event_prop (RangeMoved xs) = (PayloadSliderValue, DSlider xs)"

section \<open>Lemmas\<close>

lemmas registry_defs = app_callbacks_def pie_registration_def scatter_registration_def

lemma map_fun_upd_notin: "p \<notin> set ps \<Longrightarrow> map (st(p := v)) ps = map st ps"
  by (induction ps) auto

text \<open>Two callbacks commute when neither reads the other's output and their outputs differ.\<close>

lemma run_callback_commute:
  assumes "cb_output c1 \<notin> set (cb_inputs c2)" "cb_output c2 \<notin> set (cb_inputs c1)"
    and "cb_output c1 \<noteq> cb_output c2"
  shows "run_callback c1 \<circ> run_callback c2 = run_callback c2 \<circ> run_callback c1"
proof
  fix st
  show "(run_callback c1 \<circ> run_callback c2) st = (run_callback c2 \<circ> run_callback c1) st"
    using assms by (auto simp: run_callback_def map_fun_upd_notin fun_upd_twist split: sum.split)
qed

lemma wf_registry_commute:
  assumes "wf_registry cbs" "c1 \<in> set cbs" "c2 \<in> set cbs"
  shows "run_callback c1 \<circ> run_callback c2 = run_callback c2 \<circ> run_callback c1"
proof (cases "c1 = c2")
  case False
  with assms have "cb_output c1 \<noteq> cb_output c2"
    by (auto simp: wf_registry_def distinct_map dest: inj_onD)
  with assms show ?thesis by (intro run_callback_commute) (auto simp: wf_registry_def)
qed simp

lemma wf_app_callbacks: "wf_registry (app_callbacks df)"
  by (simp add: wf_registry_def registry_defs)

text \<open>Running a registered callback on a dashboard's store is the hand-wired firing.\<close>

lemma run_pie_registration: "run_callback (pie_registration (table d)) (store_of d) = store_of (fire_pie d)"
  by (auto simp: run_callback_def pie_registration_def fire_pie_def store_of_def split: dash_prop.split)

lemma run_scatter_registration:
  "run_callback (scatter_registration (table d)) (store_of d) = store_of (fire_scatter d)"
  by (auto simp: run_callback_def scatter_registration_def fire_scatter_def store_of_def set_output_def
           split: dash_prop.split sum.split)

lemma store_of_set_site: "(store_of d)(SiteDropdownValue := DDropdown v) = store_of (d\<lparr>site_value := v\<rparr>)"
  by (auto simp: store_of_def split: dash_prop.split)

lemma store_of_set_slider: "(store_of d)(PayloadSliderValue := DSlider xs) = store_of (d\<lparr>slider_value := xs\<rparr>)"
  by (auto simp: store_of_def split: dash_prop.split)

text \<open>Startup seen as a property store: the layout, then Dash's page-load run of the registry.\<close>

lemma app_start_store:
  "map_sum id store_of (app_start df)
   = map_sum id (\<lambda>L. dash_load (app_callbacks df) (layout_store L)) (make_layout df)"
proof (cases "make_layout df")
  case (Inr L)
  let ?d0 = "\<lparr>table = df, layout = L, site_value = dd_value (site_dropdown L),
           slider_value = rs_value (payload_slider L), pie_fig = None, scatter_fig = None\<rparr>"
  have "layout_store L = store_of ?d0"
    by (auto simp: layout_store_def store_of_def split: dash_prop.split)
  then show ?thesis
    using Inr run_pie_registration [of ?d0] run_scatter_registration [of "fire_pie ?d0"]
    by (simp add: app_start_def dash_load_def app_callbacks_def)
qed (simp add: app_start_def)

lemma app_start_layout: "app_start df = Inr d \<Longrightarrow> make_layout df = Inr (layout d)"
  by (auto simp: app_start_def split: sum.splits)

section \<open>The registry implements the dashboard\<close>

text \<open>
  C29. Dash's generic handling of an input change, over the registry the two decorators
  build, is the dashboard's \<open>dispatch\<close>: storing the new value and running the callbacks
  that list it as an input gives the store of the dispatched dashboard.
\<close>

theorem dispatch_refines_dash_set:
  "store_of (dispatch d e) = (case event_prop e of (p, v) \<Rightarrow> dash_set (app_callbacks (table d)) (store_of d) p v)"
proof (cases e)
  case (SiteSelected v)
  then show ?thesis
    using run_pie_registration [of "d\<lparr>site_value := v\<rparr>"] run_scatter_registration [of "fire_pie (d\<lparr>site_value := v\<rparr>)"]
    by (simp add: dash_set_def triggered_def registry_defs store_of_set_site)
next
  case (RangeMoved xs)
  then show ?thesis
    using run_scatter_registration [of "d\<lparr>slider_value := xs\<rparr>"]
    by (simp add: dash_set_def triggered_def registry_defs store_of_set_slider)
qed

text \<open>
  C30. The order in which Dash runs the callbacks does not matter: for any permutation of
  the registry, an input change and the page load give the same store, since the two
  callbacks have distinct outputs and neither reads the other's output.
\<close>

theorem callback_order_irrelevant:
  assumes "mset cbs = mset (app_callbacks df)"
  shows "dash_set cbs st p v = dash_set (app_callbacks df) st p v \<and> dash_load cbs st = dash_load (app_callbacks df) st"
proof -
  have set_eq: "set cbs = set (app_callbacks df)"
    using assms by (rule mset_eq_setD)
  have comm: "\<And>c1 c2. c1 \<in> set cbs \<Longrightarrow> c2 \<in> set cbs \<Longrightarrow>
      run_callback c1 \<circ> run_callback c2 = run_callback c2 \<circ> run_callback c1"
    using wf_app_callbacks set_eq by (auto intro: wf_registry_commute)
  have "fold run_callback (triggered cbs p) = fold run_callback (triggered (app_callbacks df) p)"
  proof (rule fold_multiset_equiv)
    show "mset (triggered cbs p) = mset (triggered (app_callbacks df) p)"
      using assms by (simp add: triggered_def)
  qed (auto simp: triggered_def intro: comm)
  moreover have "fold run_callback cbs = fold run_callback (app_callbacks df)"
    using comm assms by (rule fold_multiset_equiv)
  ultimately show ?thesis by (simp add: dash_set_def dash_load_def)
qed

text \<open>
  C31. Page load: the started dashboard is Dash's initial run of every registered callback
  on the layout's values, the graphs not yet drawn.
\<close>

theorem app_start_is_dash_load:
  assumes "app_start df = Inr d"
  shows "store_of d = dash_load (app_callbacks df) (layout_store (layout d))"
  using app_start_store [of df] app_start_layout [OF assms] assms by simp

end
