(* ===== verification/Frame.thy ===== *)
theory Frame
  imports Callbacks
begin

text \<open>
  The table at the level of its columns (\<open>src/spacex_dash_app.py\<close>, lines 10--12 and the
  column accesses of the callbacks). \<open>pd.read_csv\<close> gives a DataFrame whose columns are
  the CSV header; the program reads three of them by name, and \<open>spacex_df[col]\<close>,
  \<open>groupby(col)\<close> and \<open>px.scatter(y=col)\<close> raise when the column is absent. A frame is
  its column names and the rows of the three read columns; a field of a column the
  header lacks is never read, since every read goes through \<open>df_getitem\<close> first.

  Lines 11--12 read only \<open>Payload Mass (kg)\<close> at import; the callbacks read
  \<open>class\<close> and \<open>Launch Site\<close> when they run, in the order of their statements. The
  column-level startup \<open>frame_start\<close> is the module (lines 10--53) followed by Dash's page
  load over the registry with the column-level callbacks.
\<close>

record csv_frame =
  frame_columns :: "string list"   \<comment> \<open>\<open>spacex_df.columns\<close>\<close>
  frame_rows :: dataframe          \<comment> \<open>the values of \<open>Launch Site\<close>, \<open>Payload Mass (kg)\<close>, \<open>class\<close>\<close>

definition df_getitem :: "csv_frame \<Rightarrow> string \<Rightarrow> py_error + dataframe" where
  "df_getitem fr col = (if col \<in> set (frame_columns fr) then Inr (frame_rows fr) else Inl (KeyError col))"

text \<open>
  Python's \<open>repr\<close> of a string whose characters are the code points U+0000 to U+00FF:
  single quotes unless the string has a single quote and no double quote; backslash,
  the quote, tab, newline and carriage return escaped; other non-printable characters
  as \<open>\x\<close> and two lowercase hex digits.
\<close>

definition hex_digit :: "nat \<Rightarrow> char" where
  "hex_digit n = char_of (if n < 10 then 48 + n else 87 + n)"

definition py_repr_char :: "char \<Rightarrow> char \<Rightarrow> string" where
  "py_repr_char q c =
     (let n = of_char c :: nat in
      if c = q \<or> n = 92 then [CHR 0x5C, c]
      else if n = 9 then [CHR 0x5C, CHR 0x74]
      else if n = 10 then [CHR 0x5C, CHR 0x6E]
      else if n = 13 then [CHR 0x5C, CHR 0x72]
      else if n < 32 \<or> (127 \<le> n \<and> n \<le> 160) \<or> n = 173
        then [CHR 0x5C, CHR 0x78, hex_digit (n div 16), hex_digit (n mod 16)]
      else [c])"

definition py_repr_str :: "string \<Rightarrow> string" where
  "py_repr_str s =
     (let q = (if CHR 0x27 \<in> set s \<and> CHR 0x22 \<notin> set s then CHR 0x22 else CHR 0x27)
      in q # concat (map (py_repr_char q) s) @ [q])"

fun py_join :: "string \<Rightarrow> string list \<Rightarrow> string" where
  "py_join sep [] = []"
| "py_join sep [x] = x"
| "py_join sep (x # y # zs) = x @ sep @ py_join sep (y # zs)"

definition py_repr_list :: "string list \<Rightarrow> string" where
  "py_repr_list xs = ''['' @ py_join '', '' (map py_repr_str xs) @ '']''"

text \<open>The \<open>ValueError\<close> plotly express raises for an argument that names no column.\<close>

definition px_column_error :: "string \<Rightarrow> string list \<Rightarrow> string \<Rightarrow> string" where
  "px_column_error field columns argument =
     ''Value of '' @ py_repr_str field @ '' is not the name of a column in '' @ py_repr_str ''data_frame''
     @ ''. Expected one of '' @ py_repr_list columns @ '' but received: '' @ argument"

section \<open>Column reads of the module and of the callbacks\<close>

definition load_bounds :: "csv_frame \<Rightarrow> py_error + py_float \<times> py_float" where
  "load_bounds fr = py_bind (df_getitem fr ''Payload Mass (kg)'') (\<lambda>df. Inr (max_payload df, min_payload df))"

definition update_pie_chart_frame :: "csv_frame \<Rightarrow> dropdown_value \<Rightarrow> py_error + pie_figure" where
  "update_pie_chart_frame fr selected_site =
     (if selected_site = Some ''ALL''
      then py_bind (df_getitem fr ''class'') (\<lambda>df. Inr (update_pie_chart df selected_site))
      else py_bind (df_getitem fr ''Launch Site'') (\<lambda>_.
             py_bind (df_getitem fr ''class'') (\<lambda>df. Inr (update_pie_chart df selected_site))))"

definition update_scatter_chart_frame ::
  "csv_frame \<Rightarrow> dropdown_value \<Rightarrow> py_float list \<Rightarrow> py_error + scatter_figure" where
  "update_scatter_chart_frame fr selected_site payload_range =
     py_bind (unpack_pair payload_range) (\<lambda>_.
     py_bind (df_getitem fr ''Payload Mass (kg)'') (\<lambda>df.
     py_bind (if selected_site \<noteq> Some ''ALL'' then df_getitem fr ''Launch Site'' else Inr df) (\<lambda>_.
       if ''class'' \<in> set (frame_columns fr) then update_scatter_chart df selected_site payload_range
       else Inl (ValueError (px_column_error ''y'' (frame_columns fr) ''class'')))))"

fun pie_frame_callback :: "csv_frame \<Rightarrow> dash_value list \<Rightarrow> py_error + dash_value" where
  "pie_frame_callback fr [DDropdown s] = py_bind (update_pie_chart_frame fr s) (\<lambda>fig. Inr (DPie (Some fig)))"
| "pie_frame_callback fr args = pie_callback (frame_rows fr) args"

fun scatter_frame_callback :: "csv_frame \<Rightarrow> dash_value list \<Rightarrow> py_error + dash_value" where
  "scatter_frame_callback fr [DDropdown s, DSlider r] =
     py_bind (update_scatter_chart_frame fr s r) (\<lambda>fig. Inr (DScatter (Some fig)))"
| "scatter_frame_callback fr args = scatter_callback (frame_rows fr) args"

definition frame_callbacks :: "csv_frame \<Rightarrow> dash_callback list" where
  "frame_callbacks fr =
     [(pie_registration (frame_rows fr))\<lparr>cb_function := pie_frame_callback fr\<rparr>,
      (scatter_registration (frame_rows fr))\<lparr>cb_function := scatter_frame_callback fr\<rparr>]"

definition frame_start :: "csv_frame \<Rightarrow> py_error + dash_store" where
  "frame_start fr =
     py_bind (load_bounds fr) (\<lambda>_.
     py_bind (make_layout (frame_rows fr)) (\<lambda>L. Inr (dash_load (frame_callbacks fr) (layout_store L))))"

definition has_read_columns :: "csv_frame \<Rightarrow> bool" where
  "has_read_columns fr \<longleftrightarrow> set [''Launch Site'', ''Payload Mass (kg)'', ''class''] \<subseteq> set (frame_columns fr)"

section \<open>Lemmas\<close>

lemma df_getitem_present [simp]: "col \<in> set (frame_columns fr) \<Longrightarrow> df_getitem fr col = Inr (frame_rows fr)"
  by (simp add: df_getitem_def)

lemma df_getitem_absent [simp]: "col \<notin> set (frame_columns fr) \<Longrightarrow> df_getitem fr col = Inl (KeyError col)"
  by (simp add: df_getitem_def)

lemma has_read_columns_iff:
  "has_read_columns fr \<longleftrightarrow> ''Launch Site'' \<in> set (frame_columns fr) \<and> ''Payload Mass (kg)'' \<in> set (frame_columns fr)
     \<and> ''class'' \<in> set (frame_columns fr)"
  by (simp add: has_read_columns_def)

text \<open>With the three columns, the column-level callbacks are the callbacks of the rows.\<close>

lemma update_pie_chart_frame_complete:
  "has_read_columns fr \<Longrightarrow> update_pie_chart_frame fr s = Inr (update_pie_chart (frame_rows fr) s)"
  by (simp add: update_pie_chart_frame_def has_read_columns_iff)

lemma update_scatter_chart_frame_complete:
  assumes "has_read_columns fr"
  shows "update_scatter_chart_frame fr s r = update_scatter_chart (frame_rows fr) s r"
proof (cases "unpack_pair r")
  case (Inl e)
  then show ?thesis by (simp add: update_scatter_chart_frame_def update_scatter_chart_def)
next
  case (Inr lh)
  with assms show ?thesis by (simp add: update_scatter_chart_frame_def has_read_columns_iff)
qed

lemma frame_callbacks_complete:
  assumes "has_read_columns fr"
  shows "frame_callbacks fr = app_callbacks (frame_rows fr)"
proof -
  have "pie_frame_callback fr = pie_callback (frame_rows fr)"
  proof
    fix args show "pie_frame_callback fr args = pie_callback (frame_rows fr) args"
      using assms by (cases "(fr, args)" rule: pie_frame_callback.cases) (simp_all add: update_pie_chart_frame_complete)
  qed
  moreover have "scatter_frame_callback fr = scatter_callback (frame_rows fr)"
  proof
    fix args show "scatter_frame_callback fr args = scatter_callback (frame_rows fr) args"
      using assms by (cases "(fr, args)" rule: scatter_frame_callback.cases)
        (simp_all add: update_scatter_chart_frame_complete split: sum.split)
  qed
  ultimately show ?thesis by (simp add: frame_callbacks_def registry_defs)
qed

text \<open>Without the \<open>class\<close> column both callbacks raise, whatever the dropdown says.\<close>

lemma update_pie_chart_frame_no_class:
  "''class'' \<notin> set (frame_columns fr) \<Longrightarrow> \<exists>e. update_pie_chart_frame fr s = Inl e"
  by (cases "''Launch Site'' \<in> set (frame_columns fr)") (simp_all add: update_pie_chart_frame_def)

lemma update_scatter_chart_frame_no_class:
  assumes "''Payload Mass (kg)'' \<in> set (frame_columns fr)" "''class'' \<notin> set (frame_columns fr)"
  shows "update_scatter_chart_frame fr (Some ''ALL'') [lo, hi]
         = Inl (ValueError (px_column_error ''y'' (frame_columns fr) ''class''))"
  using assms by (simp add: update_scatter_chart_frame_def unpack_pair_def)

lemma frame_start_no_payload:
  "''Payload Mass (kg)'' \<notin> set (frame_columns fr) \<Longrightarrow> frame_start fr = Inl (KeyError ''Payload Mass (kg)'')"
  by (simp add: frame_start_def load_bounds_def)

lemma update_pie_chart_frame_no_site:
  "''Launch Site'' \<notin> set (frame_columns fr) \<Longrightarrow> s \<noteq> Some ''ALL''
   \<Longrightarrow> update_pie_chart_frame fr s = Inl (KeyError ''Launch Site'')"
  by (simp add: update_pie_chart_frame_def)

section \<open>Properties of the column-level startup\<close>

text \<open>
  C25. With the three columns the program reads, starting from the CSV's columns is the
  startup of the dashboard on its rows: the same exception, or the same page state.
\<close>

theorem frame_start_refines:
  assumes "has_read_columns fr"
  shows "frame_start fr = map_sum id store_of (app_start (frame_rows fr))"
proof -
  from assms have "load_bounds fr = Inr (max_payload (frame_rows fr), min_payload (frame_rows fr))"
    by (simp add: load_bounds_def has_read_columns_iff)
  then have "frame_start fr = map_sum id (\<lambda>L. dash_load (app_callbacks (frame_rows fr)) (layout_store L))
                                 (make_layout (frame_rows fr))"
    using frame_callbacks_complete [OF assms]
    by (cases "make_layout (frame_rows fr)") (simp_all add: frame_start_def)
  then show ?thesis by (simp add: app_start_store)
qed

text \<open>
  C27. A CSV without the \<open>class\<close> column does not stop the app: the import reads only the
  payload column, and at page load \<open>update_pie_chart\<close> raises \<open>KeyError\<close> and
  \<open>px.scatter\<close> raises \<open>ValueError\<close>, so the page opens with the layout's values and
  neither graph drawn.
\<close>

theorem frame_start_missing_class:
  assumes "''Payload Mass (kg)'' \<in> set (frame_columns fr)" and "''class'' \<notin> set (frame_columns fr)"
    and "make_layout (frame_rows fr) = Inr L"
  shows "frame_start fr = Inr (layout_store L)"
proof -
  obtain lo hi where slider: "rs_value (payload_slider L) = [Fin lo, Fin hi]"
    and site: "dd_value (site_dropdown L) = Some ''ALL''"
    using make_layout_Inr [OF assms(3)] by blast
  obtain e where pie: "update_pie_chart_frame fr (Some ''ALL'') = Inl e"
    using update_pie_chart_frame_no_class [OF assms(2)] by blast
  have ls: "layout_store L = (\<lambda>p. case p of
       SiteDropdownValue \<Rightarrow> DDropdown (Some ''ALL'') | PayloadSliderValue \<Rightarrow> DSlider [Fin lo, Fin hi]
     | SuccessPieChartFigure \<Rightarrow> DPie None | SuccessPayloadScatterChartFigure \<Rightarrow> DScatter None)"
    unfolding layout_store_def slider site ..
  have "dash_load (frame_callbacks fr) (layout_store L) = layout_store L"
    using pie update_scatter_chart_frame_no_class [OF assms(1,2)]
    by (simp add: dash_load_def frame_callbacks_def registry_defs run_callback_def ls)
  with assms(1,3) show ?thesis
    by (simp add: frame_start_def load_bounds_def)
qed

end
