(* ===== verification/Spec2Isabelle.thy ===== *)
theory Spec2Isabelle
  imports Frame
begin

text \<open>
  \<^bold>\<open>A verification development of the SpaceX launch dashboard\<close>
  (\<open>src/spacex_dash_app.py\<close>, one Python file of 103 lines using pandas, Dash and
  plotly express).

  \<^bold>\<open>The program.\<close> At startup it reads \<open>spacex_launch_dash.csv\<close> into the global
  dataframe \<open>spacex_df\<close> and takes the maximum and minimum of its payload column
  (lines 10--12). It builds a layout (lines 18--53): a site dropdown with the options
  \<open>'ALL'\<close> and four launch sites, a pie graph, a payload range slider whose marks are
  \<open>range(0, int(max_payload), 5000)\<close>, and a scatter graph. Two callbacks connect the
  controls to the graphs: \<open>update_pie_chart\<close> (lines 56--72, input: the dropdown) counts
  launches per outcome class for all sites or for one site, and \<open>update_scatter_chart\<close>
  (lines 75--99, inputs: the dropdown and the slider) plots payload against outcome for the
  rows inside the payload interval and the selected site. Dash runs both callbacks once at
  page load and then whenever one of their inputs changes; the two graphs share only the
  read-only table.

  \<^bold>\<open>Theories.\<close>
  \<^item> \<open>Prelude\<close>: the Python values (\<open>py_error\<close> for exceptions, \<open>ValueError\<close> and a
    \<open>TypeError\<close> for a callback called outside its signature; \<open>py_float\<close>, a
    pandas float that may be NaN, with \<open>float_le\<close> false on NaN; \<open>dropdown_value\<close>, a
    string or \<open>None\<close> for a cleared dropdown; \<open>py_fstr\<close>, f-string formatting), the
    collections \<open>row_filter_simps\<close> and \<open>callback_defs\<close>, and shared list lemmas
    (counting, partitioning a count by key, subsequences of filters).
  \<^item> \<open>Dataset\<close>: a row is the record \<open>launch_record\<close> (the columns
    \<open>Launch Site\<close>, \<open>Payload Mass (kg)\<close>, \<open>class\<close>); the table is a list of rows in
    file order. \<open>max_payload\<close>/\<open>min_payload\<close> model pandas' NaN-skipping
    \<open>max()\<close>/\<open>min()\<close>; \<open>site_rows\<close> models \<open>df[df['Launch Site'] == v]\<close>.
    Lemmas: the maximum and minimum are attained and bound every numeric payload (C20).
  \<^item> \<open>Layout\<close>: Python's \<open>int()\<close> of a float (\<open>py_int\<close>), \<open>range()\<close>
    (\<open>range_from\<close>, \<open>py_range\<close>, terminating by the measure of the distance to the stop
    value), \<open>str()\<close> of an int (\<open>py_str_int\<close>); the dropdown options, the slider and
    \<open>make_layout\<close>, the only startup step that can raise. Lemmas: bounds and order of
    \<open>range\<close>, and the slider marks (C13).
  \<^item> \<open>GroupBy\<close>: \<open>groupby_size\<close>, pandas' \<open>groupby(col).size().reset_index()\<close>,
    refined against the multiset of keys (\<open>groupby_size_mset\<close>).
  \<^item> \<open>PieChart\<close>: \<open>update_pie_chart\<close> and \<open>px_pie\<close>; the contract
    \<open>outcome_counts\<close> (spec \<open>computeOutcomeCounts\<close>) and its refinement (C1), totals
    (C2), partition over the table's sites (C3) and over the dropdown's sites (C22),
    slices (C14--C17).
  \<^item> \<open>ScatterChart\<close>: \<open>update_scatter_chart\<close> with \<open>unpack_pair\<close> (tuple unpacking
    and its \<open>ValueError\<close>), \<open>scatter_data\<close> (the two row selections of lines 83--86),
    \<open>px_scatter\<close> and \<open>update_layout\<close>; the contract \<open>range_site_rows\<close> (spec
    \<open>filterByRangeAndSite\<close>). Lemmas C4--C7, C18, C19, and the exact
    \<open>ValueError\<close> messages of the error branch (C28).
  \<^item> \<open>Dashboard\<close>: the running app as the record \<open>dashboard\<close> (table, layout, the two
    input values, the two figures), input events, \<open>dispatch\<close> (which callbacks an event
    runs; a callback that raises leaves its figure as it was), \<open>app_start\<close> (layout,
    then both callbacks on the initial values), \<open>ui_event\<close> (what the controls can
    emit: an offered dropdown value or \<open>None\<close>, and two ordered points of
    \<open>slider_points\<close>, the step points and marks the slider snaps to) and the inductive
    \<open>reachable\<close>. The invariant \<open>dash_inv\<close>, proved by rule induction, gives C8; C9 and
    C10 are about the effect and the order of events, C23 and C24 about a whole run of
    events (\<open>run\<close>), C26 is progress (every offered selection of a site and of two slider
    points is reached in two events), C12 and C21 are about startup.
  \<^item> \<open>Callbacks\<close>: the two \<open>@app.callback\<close> decorators as data, the registry
    \<open>app_callbacks\<close> (each registration's \<open>Output\<close>, \<open>Input\<close> list and function, lines
    56--60 and 75--80), and Dash's generic handling of a store of component properties
    (\<open>dash_set\<close>: store the changed input, run every callback that lists it;
    \<open>dash_load\<close>: run every callback at page load). Over this registry the generic
    handling is the hand-wired \<open>dispatch\<close> (C29) and \<open>app_start\<close> (C31), and the order in
    which the callbacks are served does not matter (C30), since the outputs are distinct and
    no callback reads another's output.
  \<^item> \<open>Frame\<close>: the table at the level of its CSV columns (lines 10--12 and the column
    reads of the callbacks). \<open>df_getitem\<close> is \<open>spacex_df[col]\<close> with pandas' \<open>KeyError\<close>;
    \<open>update_pie_chart_frame\<close> and \<open>update_scatter_chart_frame\<close> are the callbacks with their
    column reads in statement order, the latter with plotly's \<open>ValueError\<close> for
    \<open>y='class'\<close> (message built with Python's \<open>repr\<close>, \<open>py_repr_list\<close>); \<open>frame_start\<close>
    is the module run (payload bounds, layout) and Dash's page load over the registry
    with these callbacks, chained by \<open>py_bind\<close>. With the three read columns it is
    \<open>app_start\<close> (C25); without \<open>class\<close> the page opens with no graph drawn (C27).
  \<^item> This theory: the agreement of the two charts at full range (C11), and the
    witnesses, which run a concrete session on the three records of the specification's
    example (\<open>spec_example_df\<close>).

  \<^bold>\<open>Modelling choices.\<close> Python ints are \<open>int\<close>; pandas float cells are \<open>py_float\<close>
  (reals or NaN; infinities do not occur in the file and are not modelled); the global
  \<open>spacex_df\<close> is a parameter. Dash's serving of requests, rendering and styles,
  plotly's drawing, and the CSV parser are not modelled: a figure is the data a chart is
  drawn from (slice names and values; points; titles). The \<open>class\<close> column is an
  int column (the file has no blank outcome). The values the slider emits are the points
  its handles snap to (\<open>slider_points\<close>: \<open>min + k * 1000\<close> up to \<open>max\<close>, and the marks
  inside \<open>[min, max]\<close>), lower handle first; \<open>max\<close> is sent again after a move only when it
  is such a point. No loop of the program is unbounded: \<open>range\<close> and the digit
  recursion of \<open>str()\<close> terminate by measures, so no fuel is used.

  \<^bold>\<open>Not modelled.\<close> Reading the CSV (\<open>pd.read_csv\<close>: file I/O and dtype inference;
  the frame's columns and rows are a parameter, and a column the program reads is
  assumed to hold the dtype the file gives it: strings, floats, ints), Dash's HTTP server
  and browser (\<open>app.run_server(debug=True)\<close>), and plotly's drawing are outside the
  repository's code and carry no logic of the program. Of the JavaScript slider
  (rc-slider) the model keeps the set of points a handle snaps to; how the pointer
  position selects one of them, and handles dragged across each other, are not modelled.
  \<open>py_float\<close> has no infinities, so the \<open>OverflowError\<close> of \<open>int(inf)\<close> does not
  arise; the unpacking messages are CPython's up to 3.13 (3.14 appends the count to the
  too-many-values message). The import lines, comments and the \<open>if __name__ == '__main__'\<close> guard have
  no behaviour to model.
\<close>

definition spec_example_df :: dataframe where
  "spec_example_df =
     [\<lparr>launch_site = ''A'', payload_mass = Fin 500, outcome_class = 1\<rparr>,
      \<lparr>launch_site = ''A'', payload_mass = Fin 3000, outcome_class = 0\<rparr>,
      \<lparr>launch_site = ''B'', payload_mass = Fin 1000, outcome_class = 1\<rparr>]"

lemma app_start_spec_example: "app_start spec_example_df = Inr (projr (app_start spec_example_df))"
proof -
  have "max_payload spec_example_df = Fin 3000"
    by (simp add: spec_example_df_def max_payload_def column_max_def)
  then obtain L where "make_layout spec_example_df = Inr L"
    using make_layout_Inr_iff by blast
  then show ?thesis by (simp add: app_start_def)
qed

lemma reachable_spec_example: "reachable spec_example_df (projr (app_start spec_example_df))"
  using app_start_spec_example by (rule reachable.start)

section \<open>Properties across the two charts\<close>

text \<open>
  C11. The two charts agree: with the slider at its initial full range, the scatter chart
  of any dropdown value has as many points as the slices of that value's pie add up to,
  on a table whose payloads are all numbers.
\<close>

theorem pie_total_eq_scatter_full_range:
  assumes "\<forall>r \<in> set df. payload_mass r \<noteq> NaN"
  shows "\<exists>fig. update_scatter_chart df s [min_payload df, max_payload df] = Inr fig
               \<and> length (scatter_points fig) = sum_list (pie_values (update_pie_chart df s))"
proof -
  from assms have "range_site_rows df s (min_payload df) (max_payload df) = selected_rows df s"
    by (auto simp: range_site_rows_def selected_rows_def site_rows_def in_full_payload_range
        intro: filter_cong)
  then show ?thesis
    by (simp add: update_scatter_chart_pair update_pie_chart_data sum_counts_groupby_size)
qed

section \<open>Witnesses\<close>

theorem pie_total_eq_scatter_full_range_witness:
  "\<exists>fig. update_scatter_chart spec_example_df (Some ''A'')
          [min_payload spec_example_df, max_payload spec_example_df] = Inr fig
        \<and> length (scatter_points fig) = 2"
proof -
  have h: "\<forall>r \<in> set spec_example_df. payload_mass r \<noteq> NaN"
    by (simp add: spec_example_df_def)
  have "sum_list (pie_values (update_pie_chart spec_example_df (Some ''A''))) = 2"
    by (simp add: spec_example_df_def callback_defs groupby_size_def site_rows_def)
  with pie_total_eq_scatter_full_range [OF h, of "Some ''A''"] show ?thesis by simp
qed

theorem pie_partition_by_site_witness:
  "''ALL'' \<notin> launch_site ` set spec_example_df
   \<and> pie_count (update_pie_chart spec_example_df (Some ''ALL'')) 1
     = pie_count (update_pie_chart spec_example_df (Some ''A'')) 1
       + pie_count (update_pie_chart spec_example_df (Some ''B'')) 1"
proof -
  have h: "''ALL'' \<notin> launch_site ` set spec_example_df"
    by (simp add: spec_example_df_def)
  have "remdups (map launch_site spec_example_df) = [''A'', ''B'']"
    by (simp add: spec_example_df_def)
  with h pie_partition_by_site [OF h, of 1] show ?thesis by simp
qed

theorem pie_partition_known_sites_witness:
  "set (map launch_site [\<lparr>launch_site = ''KSC LC-39A'', payload_mass = Fin 500, outcome_class = 1\<rparr>])
     \<subseteq> set known_sites
   \<and> pie_count (update_pie_chart [\<lparr>launch_site = ''KSC LC-39A'', payload_mass = Fin 500, outcome_class = 1\<rparr>]
                 (Some ''ALL'')) 1
     = sum_list (map (\<lambda>site. pie_count (update_pie_chart
                 [\<lparr>launch_site = ''KSC LC-39A'', payload_mass = Fin 500, outcome_class = 1\<rparr>] (Some site)) 1)
                 known_sites)"
proof -
  have h: "set (map launch_site [\<lparr>launch_site = ''KSC LC-39A'', payload_mass = Fin 500, outcome_class = (1::int)\<rparr>])
     \<subseteq> set known_sites"
    by (simp add: known_sites_def site_options_def)
  with pie_partition_known_sites [OF h, of 1] show ?thesis by simp
qed

theorem pie_empty_for_unmatched_site_witness:
  "pie_names (update_pie_chart spec_example_df None) = []
   \<and> pie_values (update_pie_chart spec_example_df (Some ''KSC LC-39A'')) = []"
proof -
  have "None \<noteq> Some ''ALL''" and "None \<notin> Some ` launch_site ` set spec_example_df"
    by simp_all
  note a = pie_empty_for_unmatched_site [OF this]
  have "Some ''KSC LC-39A'' \<noteq> Some ''ALL''"
    and "Some ''KSC LC-39A'' \<notin> Some ` launch_site ` set spec_example_df"
    by (simp_all add: spec_example_df_def)
  note b = pie_empty_for_unmatched_site [OF this]
  from a b show ?thesis by simp
qed

theorem pie_names_wf_witness:
  "wf_dataframe spec_example_df \<and> set (pie_names (update_pie_chart spec_example_df (Some ''A''))) \<subseteq> {0, 1}"
proof -
  have h: "wf_dataframe spec_example_df"
    by (simp add: spec_example_df_def wf_dataframe_def wf_record_def)
  with pie_names_wf [OF h] show ?thesis by simp
qed

theorem scatter_full_range_all_witness:
  "\<exists>fig. update_scatter_chart spec_example_df (Some ''ALL'')
          [min_payload spec_example_df, max_payload spec_example_df] = Inr fig
        \<and> scatter_points fig = map scatter_point spec_example_df"
proof -
  have h: "\<forall>r \<in> set spec_example_df. payload_mass r \<noteq> NaN"
    by (simp add: spec_example_df_def)
  show ?thesis by (rule scatter_full_range_all [OF h])
qed

theorem scatter_data_narrowing_witness:
  "float_le (Fin 0) (Fin 400) \<and> float_le (Fin 1200) (Fin 3000)
   \<and> subseq (scatter_data spec_example_df (Some ''ALL'') (Fin 400) (Fin 1200))
            (scatter_data spec_example_df (Some ''ALL'') (Fin 0) (Fin 3000))"
proof -
  have h1: "float_le (Fin 0) (Fin 400)" and h2: "float_le (Fin 1200) (Fin 3000)" by simp_all
  with scatter_data_narrowing [OF h1 h2] show ?thesis by simp
qed

theorem scatter_empty_inverted_range_witness:
  "(1000::real) < 3000 \<and> scatter_data spec_example_df (Some ''ALL'') (Fin 3000) (Fin 1000) = []"
  using scatter_empty_inverted_range [of 1000 3000] by simp

theorem scatter_skips_nan_payload_witness:
  "payload_mass \<lparr>launch_site = ''A'', payload_mass = NaN, outcome_class = (1::int)\<rparr> = NaN
   \<and> \<lparr>launch_site = ''A'', payload_mass = NaN, outcome_class = 1\<rparr>
       \<notin> set (scatter_data [\<lparr>launch_site = ''A'', payload_mass = NaN, outcome_class = 1\<rparr>]
                (Some ''ALL'') (Fin 0) (Fin 1000))"
proof -
  have h: "payload_mass \<lparr>launch_site = ''A'', payload_mass = NaN, outcome_class = (1::int)\<rparr> = NaN"
    by simp
  with scatter_skips_nan_payload [OF h] show ?thesis by blast
qed

theorem reachable_charts_consistent_witness:
  "reachable spec_example_df (projr (app_start spec_example_df))
   \<and> pie_fig (projr (app_start spec_example_df))
       = Some (update_pie_chart spec_example_df (site_value (projr (app_start spec_example_df))))"
  using reachable_charts_consistent [OF reachable_spec_example] reachable_spec_example by simp

theorem app_start_initial_witness:
  "app_start spec_example_df = Inr (projr (app_start spec_example_df))
   \<and> slider_value (projr (app_start spec_example_df)) = [Fin 500, Fin 3000]"
proof -
  have "min_payload spec_example_df = Fin 500" and "max_payload spec_example_df = Fin 3000"
    by (simp_all add: spec_example_df_def min_payload_def max_payload_def column_min_def column_max_def)
  with app_start_initial [OF app_start_spec_example] app_start_spec_example show ?thesis by simp
qed

theorem dispatch_commute_witness:
  "length [Fin 0, Fin 1000] = 2
   \<and> dispatch (dispatch (projr (app_start spec_example_df)) (SiteSelected None)) (RangeMoved [Fin 0, Fin 1000])
     = dispatch (dispatch (projr (app_start spec_example_df)) (RangeMoved [Fin 0, Fin 1000])) (SiteSelected None)"
  using dispatch_commute [of "[Fin 0, Fin 1000]"] by simp

theorem run_scatter_last_inputs_witness:
  "[SiteSelected None] \<noteq> []
   \<and> length (slider_value (run (projr (app_start spec_example_df)) [SiteSelected None])) = 2
   \<and> (\<exists>fig. update_scatter_chart spec_example_df None
              (slider_value (run (projr (app_start spec_example_df)) [SiteSelected None])) = Inr fig
            \<and> scatter_fig (run (projr (app_start spec_example_df)) [SiteSelected None]) = Some fig)"
proof -
  let ?d = "projr (app_start spec_example_df)"
  have h1: "[SiteSelected None] \<noteq> []" by simp
  have h2: "length (slider_value (run ?d [SiteSelected None])) = 2"
    using app_start_Inr [OF app_start_spec_example] by simp
  from run_scatter_last_inputs [OF h1 h2] h2
    app_start_Inr [OF app_start_spec_example] show ?thesis by simp
qed


theorem update_scatter_chart_unpack_message_witness:
  "length [Fin 1000] \<noteq> 2
   \<and> update_scatter_chart spec_example_df None [Fin 1000]
       = Inl (ValueError ''not enough values to unpack (expected 2, got 1)'')"
proof -
  have h: "length [Fin 1000] \<noteq> 2" by simp
  from update_scatter_chart_unpack_message [OF h, of spec_example_df None] h show ?thesis
    by (simp add: layout_eval_simps)
qed

theorem app_start_fails_iff_witness:
  "(\<exists>e. app_start [] = Inl e)
   \<and> \<not> (\<exists>e. app_start [\<lparr>launch_site = ''A'', payload_mass = Fin 500, outcome_class = 1\<rparr>] = Inl e)"
  using app_start_fails_iff [of "[]"]
    app_start_fails_iff [of "[\<lparr>launch_site = ''A'', payload_mass = Fin 500, outcome_class = 1\<rparr>]"]
  by simp

theorem callback_order_irrelevant_witness:
  "mset (rev (app_callbacks spec_example_df)) = mset (app_callbacks spec_example_df)
   \<and> dash_set (rev (app_callbacks spec_example_df)) (layout_store (layout (projr (app_start spec_example_df))))
         SiteDropdownValue (DDropdown (Some ''A''))
       = dash_set (app_callbacks spec_example_df) (layout_store (layout (projr (app_start spec_example_df))))
         SiteDropdownValue (DDropdown (Some ''A''))"
  using callback_order_irrelevant [of "rev (app_callbacks spec_example_df)" spec_example_df
      "layout_store (layout (projr (app_start spec_example_df)))" SiteDropdownValue "DDropdown (Some ''A'')"]
  by simp

theorem app_start_is_dash_load_witness:
  "app_start spec_example_df = Inr (projr (app_start spec_example_df))
   \<and> store_of (projr (app_start spec_example_df))
       = dash_load (app_callbacks spec_example_df) (layout_store (layout (projr (app_start spec_example_df))))"
  by (rule conjI [OF app_start_spec_example app_start_is_dash_load [OF app_start_spec_example]])

theorem frame_start_refines_witness:
  "has_read_columns \<lparr>frame_columns = [''Flight Number'', ''Launch Site'', ''Payload Mass (kg)'', ''class''],
                     frame_rows = spec_example_df\<rparr>
   \<and> frame_start \<lparr>frame_columns = [''Flight Number'', ''Launch Site'', ''Payload Mass (kg)'', ''class''],
                   frame_rows = spec_example_df\<rparr>
       = map_sum id store_of (app_start spec_example_df)"
  using frame_start_refines [of "\<lparr>frame_columns = [''Flight Number'', ''Launch Site'', ''Payload Mass (kg)'', ''class''],
                                 frame_rows = spec_example_df\<rparr>"]
  by (simp add: has_read_columns_def)

theorem frame_start_missing_class_witness:
  "''Payload Mass (kg)'' \<in> set [''Launch Site'', ''Payload Mass (kg)'']
   \<and> ''class'' \<notin> set [''Launch Site'', ''Payload Mass (kg)'']
   \<and> make_layout spec_example_df = Inr (layout (projr (app_start spec_example_df)))
   \<and> frame_start \<lparr>frame_columns = [''Launch Site'', ''Payload Mass (kg)''], frame_rows = spec_example_df\<rparr>
       = Inr (layout_store (layout (projr (app_start spec_example_df))))"
proof -
  have L: "make_layout spec_example_df = Inr (layout (projr (app_start spec_example_df)))"
    by (rule app_start_layout [OF app_start_spec_example])
  show ?thesis
    using L frame_start_missing_class [of "\<lparr>frame_columns = [''Launch Site'', ''Payload Mass (kg)''],
        frame_rows = spec_example_df\<rparr>" "layout (projr (app_start spec_example_df))"]
    by simp
qed

end
